theory Spec2Isabelle
  imports Complex_Main "HOL-Library.AList"
begin

section \<open>Common model fields\<close>

text \<open>
  Timestamps are \<^verbatim>\<open>timezone.now()\<close> values, counted in microseconds (the
  resolution of a Python \<^verbatim>\<open>datetime\<close>). Every call of \<^verbatim>\<open>timezone.now()\<close> in the
  source becomes an explicit argument of the model.  Primary keys are \<^verbatim>\<open>BigAutoField\<close>
  values, Python integers.
\<close>

type_synonym timestamp = int
type_synonym pk = int

section \<open>Notifications (\<^verbatim>\<open>apps/notifications\<close>)\<close>

text \<open>
  \<^verbatim>\<open>Notification(BaseModel)\<close>: one record per row.  Foreign keys are stored by
  identifier; \<^verbatim>\<open>extra_data\<close> is kept as its JSON text.
\<close>

record Notification =
  n_id :: pk
  n_created_at :: timestamp
  n_updated_at :: timestamp
  n_recipient :: pk
  n_notification_type :: string
  n_title :: string
  n_message :: string
  n_is_read :: bool
  n_read_at :: "timestamp option"
  n_related_room :: "pk option"
  n_related_message :: "pk option"
  n_related_user :: "pk option"
  n_extra_data :: "string option"

text \<open>
  \<^verbatim>\<open>self.save(update_fields=["is_read", "read_at"])\<close>: the row with the instance's
  primary key takes the two named columns from the instance; no other column is written
  (\<^verbatim>\<open>updated_at\<close> is not among the update fields).
\<close>

definition save_read_fields :: "Notification \<Rightarrow> Notification list \<Rightarrow> Notification list" where
  "save_read_fields n tbl =
     map (\<lambda>r. if n_id r = n_id n
               then r\<lparr>n_is_read := n_is_read n, n_read_at := n_read_at n\<rparr>
               else r) tbl"

text \<open>
  \<^verbatim>\<open>Notification.mark_as_read\<close> and \<^verbatim>\<open>Notification.mark_as_unread\<close>.  The method
  mutates the instance and, inside the same guard, saves it; the model returns the
  instance and the table.
\<close>

definition mark_as_read ::
  "timestamp \<Rightarrow> Notification \<Rightarrow> Notification list \<Rightarrow> Notification \<times> Notification list" where
  "mark_as_read now n tbl =
     (if \<not> n_is_read n
      then (let n' = n\<lparr>n_is_read := True, n_read_at := Some now\<rparr>
            in (n', save_read_fields n' tbl))
      else (n, tbl))"

definition mark_as_unread ::
  "Notification \<Rightarrow> Notification list \<Rightarrow> Notification \<times> Notification list" where
  "mark_as_unread n tbl =
     (if n_is_read n
      then (let n' = n\<lparr>n_is_read := False, n_read_at := None\<rparr>
            in (n', save_read_fields n' tbl))
      else (n, tbl))"

text \<open>
  \<^verbatim>\<open>NotificationViewSet.get_queryset\<close> keeps the rows of the requesting user;
  \<^verbatim>\<open>mark_all_read\<close> and \<^verbatim>\<open>bulk_mark_read\<close> run
  \<^verbatim>\<open>.filter(..., is_read=False).update(is_read=True)\<close>, a single
  \<^verbatim>\<open>UPDATE ... SET is_read = true\<close> over the selected rows.  \<^verbatim>\<open>bulk_mark_read\<close>
  also reports how many rows it updated.
\<close>

definition get_queryset_N :: "pk \<Rightarrow> Notification \<Rightarrow> bool" where
  "get_queryset_N user n \<longleftrightarrow> n_recipient n = user"

definition update_is_read :: "(Notification \<Rightarrow> bool) \<Rightarrow> Notification list \<Rightarrow> Notification list" where
  "update_is_read sel tbl = map (\<lambda>n. if sel n then n\<lparr>n_is_read := True\<rparr> else n) tbl"

definition mark_all_read :: "pk \<Rightarrow> Notification list \<Rightarrow> Notification list" where
  "mark_all_read user tbl =
     update_is_read (\<lambda>n. get_queryset_N user n \<and> \<not> n_is_read n) tbl"

definition bulk_mark_read :: "pk \<Rightarrow> pk list \<Rightarrow> Notification list \<Rightarrow> nat \<times> Notification list" where
  "bulk_mark_read user notification_ids tbl =
     (let sel = (\<lambda>n. get_queryset_N user n \<and> n_id n \<in> set notification_ids \<and> \<not> n_is_read n)
      in (length (filter sel tbl), update_is_read sel tbl))"

section \<open>Python values\<close>

text \<open>
  Strings are lists of characters, a character being a code point below 256.
  \<^verbatim>\<open>str.strip()\<close> removes leading and trailing whitespace; among these code points
  Python's whitespace is tab, line feed, vertical tab, form feed, carriage return, the
  four separators \<^verbatim>\<open>0x1C\<close> to \<^verbatim>\<open>0x1F\<close>, space, next line (\<^verbatim>\<open>0x85\<close>) and the
  no-break space (\<^verbatim>\<open>0xA0\<close>).
\<close>

definition isspace :: "char \<Rightarrow> bool" where
  "isspace c \<longleftrightarrow>
     c \<in> set [CHR 0x09, CHR 0x0A, CHR 0x0B, CHR 0x0C, CHR 0x0D,
              CHR 0x1C, CHR 0x1D, CHR 0x1E, CHR 0x1F, CHR 0x20, CHR 0x85, CHR 0xA0]"

definition strip :: "string \<Rightarrow> string" where
  "strip s = rev (dropWhile isspace (rev (dropWhile isspace s)))"

text \<open>\<^verbatim>\<open>str(n)\<close> of a Python integer, as an f-string renders it.\<close>

function str_nat :: "nat \<Rightarrow> string" where
  "str_nat n =
     (if n < 10 then [''0123456789'' ! n]
      else str_nat (n div 10) @ [''0123456789'' ! (n mod 10)])"
  by pat_completeness auto
termination
  by (relation "measure (\<lambda>n. n)") auto

declare str_nat.simps [simp del]

definition str_int :: "int \<Rightarrow> string" where
  "str_int i = (if i < 0 then CHR ''-'' # str_nat (nat (- i)) else str_nat (nat i))"

text \<open>
  What \<^verbatim>\<open>json.loads\<close> returns.  An object is the list of its key/value pairs,
  read with \<^verbatim>\<open>dict.get\<close>.
\<close>

datatype json =
    JNull
  | JBool bool
  | JInt int
  | JFloat real
  | JString string
  | JArray "json list"
  | JObject "(string \<times> json) list"

text \<open>Python truth value (\<^verbatim>\<open>not x\<close> is its negation) and hashability of such a value.\<close>

fun truthy :: "json \<Rightarrow> bool" where
  "truthy JNull = False"
| "truthy (JBool b) = b"
| "truthy (JInt i) = (i \<noteq> 0)"
| "truthy (JFloat r) = (r \<noteq> 0)"
| "truthy (JString s) = (s \<noteq> [])"
| "truthy (JArray xs) = (xs \<noteq> [])"
| "truthy (JObject kvs) = (kvs \<noteq> [])"

fun hashable :: "json \<Rightarrow> bool" where
  "hashable (JArray xs) = False"
| "hashable (JObject kvs) = False"
| "hashable v = True"

text \<open>The exceptions the modelled code raises or catches.\<close>

datatype exn =
    JSONDecodeError
  | PydanticValidationError
  | AttributeError
  | TypeError
  | DoesNotExist
  | IntegrityError
  | DataError
  | DjangoValidationError
  | ResponseError

text \<open>The REST framework's error responses (\<^verbatim>\<open>apps/common/exceptions.py\<close>).\<close>

datatype api_error = NotFound | PermissionDenied | ValidationError

section \<open>The durable store (\<^verbatim>\<open>apps/accounts/models.py\<close>, \<^verbatim>\<open>apps/chat/models.py\<close>)\<close>

record User =
  u_id :: pk
  u_email :: string
  u_first_name :: string
  u_last_name :: string
  u_is_online :: bool
  u_last_seen :: "timestamp option"

record ChatRoom =
  r_id :: pk
  r_name :: string
  r_room_type :: string
  r_is_active :: bool
  r_created_by :: pk

record RoomMembership =
  rm_id :: pk
  rm_user :: pk
  rm_room :: pk
  rm_role :: string
  rm_is_active :: bool

record Message =
  m_id :: pk
  m_created_at :: timestamp
  m_updated_at :: timestamp
  m_room :: pk
  m_sender :: pk
  m_content :: string
  m_message_type :: string
  m_is_edited :: bool
  m_edited_at :: "timestamp option"
  m_reply_to :: "pk option"

text \<open>
  An \<^verbatim>\<open>Attachment\<close> row.  \<^verbatim>\<open>a_file\<close> is the stored file locator (the
  \<^verbatim>\<open>FileField\<close>'s name); the empty string is a row with no file.
\<close>

record Attachment =
  a_id :: pk
  a_created_at :: timestamp
  a_updated_at :: timestamp
  a_message :: pk
  a_file :: string
  a_filename :: string
  a_file_type :: string
  a_file_size :: int
  a_mime_type :: string
  a_thumbnail :: "string option"

text \<open>
  The tables, in insertion order, and the two identifier sequences the modelled code
  draws from.
\<close>

record database =
  users :: "User list"
  rooms :: "ChatRoom list"
  memberships :: "RoomMembership list"
  messages :: "Message list"
  attachments :: "Attachment list"
  message_seq :: pk
  attachment_seq :: pk

text \<open>\<^verbatim>\<open>User.get_full_name\<close>.\<close>

definition get_full_name :: "User \<Rightarrow> string" where
  "get_full_name u =
     (let full_name = strip (u_first_name u @ '' '' @ u_last_name u)
      in if full_name \<noteq> [] then full_name else u_email u)"

text \<open>
  \<^verbatim>\<open>Model.objects.get(id=...)\<close>: the row with that primary key, or
  \<^verbatim>\<open>DoesNotExist\<close>.
\<close>

definition User_objects_get :: "pk \<Rightarrow> database \<Rightarrow> exn + User" where
  "User_objects_get i db =
     (case find (\<lambda>u. u_id u = i) (users db) of None \<Rightarrow> Inl DoesNotExist | Some u \<Rightarrow> Inr u)"

definition Message_objects_get :: "pk \<Rightarrow> database \<Rightarrow> exn + Message" where
  "Message_objects_get i db =
     (case find (\<lambda>m. m_id m = i) (messages db) of None \<Rightarrow> Inl DoesNotExist | Some m \<Rightarrow> Inr m)"

text \<open>
  \<^verbatim>\<open>Message.clean\<close>.  Django runs \<^verbatim>\<open>clean\<close> from \<^verbatim>\<open>full_clean\<close> only;
  \<^verbatim>\<open>ChatRoom.save\<close> calls \<^verbatim>\<open>full_clean\<close>, while \<^verbatim>\<open>Message\<close> inherits
  \<^verbatim>\<open>BaseModel.save\<close>, which does not.
\<close>

definition Message_clean :: "Message \<Rightarrow> exn + unit" where
  "Message_clean m =
     (if m_message_type m = ''text'' \<and> strip (m_content m) = []
      then Inl DjangoValidationError else Inr ())"

text \<open>
  \<^verbatim>\<open>Message.objects.create(room_id=..., sender=..., content=..., message_type=...,
  reply_to=...)\<close>: the instance is built with the field defaults
  (\<^verbatim>\<open>is_edited=False\<close>, \<^verbatim>\<open>edited_at=None\<close>) and saved by \<^verbatim>\<open>BaseModel.save\<close>, which
  stamps \<^verbatim>\<open>created_at\<close> and inserts the row under the next identifier.  The clock
  readings of one save are taken as one instant.  The two foreign keys are
  \<^verbatim>\<open>ForeignKey(..., on_delete=CASCADE)\<close> columns: an insert that references a missing
  room or user is rejected with \<^verbatim>\<open>IntegrityError\<close> and leaves the tables as they were.
\<close>

definition Message_objects_create ::
  "timestamp \<Rightarrow> pk \<Rightarrow> pk \<Rightarrow> string \<Rightarrow> string \<Rightarrow> pk option \<Rightarrow> database
     \<Rightarrow> exn + (Message \<times> database)" where
  "Message_objects_create now room_id sender content message_type reply_to db =
     (if list_ex (\<lambda>r. r_id r = room_id) (rooms db) \<and> list_ex (\<lambda>u. u_id u = sender) (users db)
      then
        (let message = \<lparr>m_id = message_seq db + 1, m_created_at = now, m_updated_at = now,
                m_room = room_id, m_sender = sender, m_content = content,
                m_message_type = message_type, m_is_edited = False, m_edited_at = None,
                m_reply_to = reply_to\<rparr>
         in Inr (message, db\<lparr>messages := messages db @ [message],
                               message_seq := message_seq db + 1\<rparr>))
      else Inl IntegrityError)"

text \<open>
  \<^verbatim>\<open>Attachment.objects.create(message=..., filename=..., file_type=..., file_size=...,
  mime_type=...)\<close>: no \<^verbatim>\<open>file\<close> and no \<^verbatim>\<open>thumbnail\<close> are passed, so the row has the
  empty locator and no thumbnail.  \<^verbatim>\<open>file_size\<close> is a \<^verbatim>\<open>PositiveIntegerField\<close>, a
  32-bit integer column with the check \<^verbatim>\<open>file_size >= 0\<close>: a value outside the
  column's range is refused with \<^verbatim>\<open>DataError\<close>, a negative one with
  \<^verbatim>\<open>IntegrityError\<close>, as is a reference to a missing message.
\<close>

definition Attachment_objects_create ::
  "timestamp \<Rightarrow> Message \<Rightarrow> string \<Rightarrow> string \<Rightarrow> int \<Rightarrow> string \<Rightarrow> database
     \<Rightarrow> exn + (Attachment \<times> database)" where
  "Attachment_objects_create now message filename file_type file_size mime_type db =
     (if file_size < - 2147483648 \<or> 2147483647 < file_size then Inl DataError
      else if file_size < 0 then Inl IntegrityError
      else if list_ex (\<lambda>m. m_id m = m_id message) (messages db)
      then
        (let attachment = \<lparr>a_id = attachment_seq db + 1, a_created_at = now, a_updated_at = now,
                a_message = m_id message, a_file = [], a_filename = filename,
                a_file_type = file_type, a_file_size = file_size, a_mime_type = mime_type,
                a_thumbnail = None\<rparr>
         in Inr (attachment, db\<lparr>attachments := attachments db @ [attachment],
                                  attachment_seq := attachment_seq db + 1\<rparr>))
      else Inl IntegrityError)"

text \<open>
  \<^verbatim>\<open>ChatConsumer.is_room_member\<close>:
  \<^verbatim>\<open>ChatRoom.objects.filter(id=room_id, participants=user,
  memberships__is_active=True).exists()\<close>.  \<^verbatim>\<open>participants\<close> is the many-to-many field
  through \<^verbatim>\<open>RoomMembership\<close> and \<^verbatim>\<open>memberships\<close> the reverse relation of the same
  table; inside one \<^verbatim>\<open>filter()\<close> call both conditions are on the same membership row.
\<close>

definition active_membership :: "database \<Rightarrow> pk \<Rightarrow> pk \<Rightarrow> bool" where
  "active_membership db user room_id =
     list_ex (\<lambda>ms. rm_room ms = room_id \<and> rm_user ms = user \<and> rm_is_active ms) (memberships db)"

definition is_room_member :: "database \<Rightarrow> User \<Rightarrow> pk \<Rightarrow> bool" where
  "is_room_member db user room_id =
     list_ex (\<lambda>room. r_id room = room_id \<and> active_membership db (u_id user) (r_id room)) (rooms db)"

section \<open>The presence store (\<^verbatim>\<open>apps/common/utils.py\<close>)\<close>

text \<open>
  The Redis database the presence utilities talk to: one key space, each key holding a
  string or a set, with an optional expiry instant.  The clock of the store counts
  milliseconds; a key whose expiry instant has been reached is gone for every command.
  Every command takes the instant \<open>now\<close> at which it runs, and the commands of one
  call of a utility run at one instant.  The members of a set are
  the user identifiers the code adds (\<^verbatim>\<open>redis-py\<close> writes an integer as its decimal
  text and \<^verbatim>\<open>get_online_users_in_room\<close> reads it back with \<^verbatim>\<open>int\<close>).
\<close>

datatype rvalue = RString string | RSet "int set"

record rentry =
  e_value :: rvalue
  e_expires :: "nat option"

type_synonym redis = "(string \<times> rentry) list"

definition alive :: "nat \<Rightarrow> rentry \<Rightarrow> bool" where
  "alive now e = (case e_expires e of None \<Rightarrow> True | Some t \<Rightarrow> now < t)"

definition redis_lookup :: "nat \<Rightarrow> redis \<Rightarrow> string \<Rightarrow> rentry option" where
  "redis_lookup now st name =
     (case map_of st name of
        None \<Rightarrow> None
      | Some e \<Rightarrow> if alive now e then Some e else None)"

text \<open>
  The commands the code issues.  A set command on a key that holds a string is refused
  with \<^verbatim>\<open>WRONGTYPE\<close>, which \<^verbatim>\<open>redis-py\<close> raises as \<^verbatim>\<open>ResponseError\<close>; a set that
  loses its last member is deleted.  Times to live are given in seconds.
\<close>

definition redis_setex :: "nat \<Rightarrow> string \<Rightarrow> nat \<Rightarrow> string \<Rightarrow> redis \<Rightarrow> redis" where
  "redis_setex now name time v st =
     AList.update name \<lparr>e_value = RString v, e_expires = Some (now + time * 1000)\<rparr> st"

definition redis_sadd :: "nat \<Rightarrow> string \<Rightarrow> int \<Rightarrow> redis \<Rightarrow> exn + redis" where
  "redis_sadd now name member st =
     (case redis_lookup now st name of
        None \<Rightarrow> Inr (AList.update name \<lparr>e_value = RSet {member}, e_expires = None\<rparr> st)
      | Some e \<Rightarrow>
          (case e_value e of
             RString v \<Rightarrow> Inl ResponseError
           | RSet members \<Rightarrow> Inr (AList.update name (e\<lparr>e_value := RSet (insert member members)\<rparr>) st)))"

definition redis_expire :: "nat \<Rightarrow> string \<Rightarrow> nat \<Rightarrow> redis \<Rightarrow> redis" where
  "redis_expire now name time st =
     (case redis_lookup now st name of
        None \<Rightarrow> st
      | Some e \<Rightarrow> AList.update name (e\<lparr>e_expires := Some (now + time * 1000)\<rparr>) st)"

definition redis_delete :: "string \<Rightarrow> redis \<Rightarrow> redis" where
  "redis_delete name st = AList.delete name st"

definition redis_srem :: "nat \<Rightarrow> string \<Rightarrow> int \<Rightarrow> redis \<Rightarrow> exn + redis" where
  "redis_srem now name member st =
     (case redis_lookup now st name of
        None \<Rightarrow> Inr st
      | Some e \<Rightarrow>
          (case e_value e of
             RString v \<Rightarrow> Inl ResponseError
           | RSet members \<Rightarrow>
               if members - {member} = {} then Inr (AList.delete name st)
               else Inr (AList.update name (e\<lparr>e_value := RSet (members - {member})\<rparr>) st)))"

definition redis_smembers :: "nat \<Rightarrow> string \<Rightarrow> redis \<Rightarrow> exn + int set" where
  "redis_smembers now name st =
     (case redis_lookup now st name of
        None \<Rightarrow> Inr {}
      | Some e \<Rightarrow> (case e_value e of RString v \<Rightarrow> Inl ResponseError | RSet members \<Rightarrow> Inr members))"

definition redis_exists :: "nat \<Rightarrow> string \<Rightarrow> redis \<Rightarrow> bool" where
  "redis_exists now name st = (redis_lookup now st name \<noteq> None)"

text \<open>
  \<^verbatim>\<open>scan_iter(pattern)\<close> yields the keys that match a glob pattern.  The pattern
  language of the model has \<^verbatim>\<open>*\<close> (any run of characters) and \<^verbatim>\<open>?\<close> (any one
  character); the one pattern of the source, \<^verbatim>\<open>presence:room:*\<close>, uses only a final
  \<^verbatim>\<open>*\<close>.
\<close>

fun glob :: "string \<Rightarrow> string \<Rightarrow> bool" where
  "glob [] s = (s = [])"
| "glob (p # ps) s =
     (if p = CHR ''*''
      then (glob ps s \<or> (case s of [] \<Rightarrow> False | c # cs \<Rightarrow> glob (p # ps) cs))
      else (case s of [] \<Rightarrow> False | c # cs \<Rightarrow> (p = CHR ''?'' \<or> p = c) \<and> glob ps cs))"

definition redis_scan_iter :: "nat \<Rightarrow> string \<Rightarrow> redis \<Rightarrow> string list" where
  "redis_scan_iter now pattern st =
     filter (\<lambda>name. glob pattern name \<and> redis_lookup now st name \<noteq> None) (map fst st)"

text \<open>The presence utilities themselves.\<close>

definition get_user_presence_key :: "int \<Rightarrow> string" where
  "get_user_presence_key user_id = ''presence:user:'' @ str_int user_id"

definition get_room_presence_key :: "int \<Rightarrow> string" where
  "get_room_presence_key room_id = ''presence:room:'' @ str_int room_id"

text \<open>
  \<^verbatim>\<open>set_user_online(user_id, room_id=None)\<close>.  The result carries the exception, if
  one was raised, and the store as the commands issued before it left it.  The guard
  \<^verbatim>\<open>if room_id:\<close> is false for \<^verbatim>\<open>None\<close> and for \<^verbatim>\<open>0\<close>.
\<close>

definition set_user_online :: "nat \<Rightarrow> int \<Rightarrow> int option \<Rightarrow> redis \<Rightarrow> exn option \<times> redis" where
  "set_user_online now user_id room_id st =
     (let key = get_user_presence_key user_id;
          st1 = redis_setex now key 60 ''online'' st
      in case room_id of
           None \<Rightarrow> (None, st1)
         | Some r \<Rightarrow>
             if r = 0 then (None, st1)
             else
               (let room_key = get_room_presence_key r
                in case redis_sadd now room_key user_id st1 of
                     Inl e \<Rightarrow> (Some e, st1)
                   | Inr st2 \<Rightarrow> (None, redis_expire now room_key 60 st2)))"

text \<open>
  \<^verbatim>\<open>set_user_offline(user_id)\<close>: the loop over \<^verbatim>\<open>scan_iter("presence:room:*")\<close>
  stops at the first command that raises.
\<close>

fun srem_each :: "nat \<Rightarrow> int \<Rightarrow> string list \<Rightarrow> redis \<Rightarrow> exn option \<times> redis" where
  "srem_each now user_id [] st = (None, st)"
| "srem_each now user_id (room_key # room_keys) st =
     (case redis_srem now room_key user_id st of
        Inl e \<Rightarrow> (Some e, st)
      | Inr st' \<Rightarrow> srem_each now user_id room_keys st')"

definition set_user_offline :: "nat \<Rightarrow> int \<Rightarrow> redis \<Rightarrow> exn option \<times> redis" where
  "set_user_offline now user_id st =
     (let key = get_user_presence_key user_id;
          st1 = redis_delete key st
      in srem_each now user_id (redis_scan_iter now ''presence:room:*'' st1) st1)"

definition get_online_users_in_room :: "nat \<Rightarrow> int \<Rightarrow> redis \<Rightarrow> exn + int set" where
  "get_online_users_in_room now room_id st =
     redis_smembers now (get_room_presence_key room_id) st"

definition is_user_online :: "nat \<Rightarrow> int \<Rightarrow> redis \<Rightarrow> bool" where
  "is_user_online now user_id st = redis_exists now (get_user_presence_key user_id) st"

text \<open>
  The keys under \<^verbatim>\<open>presence:room:\<close> are written by \<^verbatim>\<open>set_user_online\<close> only, as
  sets.  A store in which every such key holds a set is the store the utilities expect.
\<close>

definition holds_set :: "rentry \<Rightarrow> bool" where
  "holds_set e = (case e_value e of RSet members \<Rightarrow> True | RString v \<Rightarrow> False)"

definition room_keys_hold_sets :: "redis \<Rightarrow> bool" where
  "room_keys_hold_sets st =
     list_all (\<lambda>(name, e). if glob ''presence:room:*'' name then holds_set e else True) st"

section \<open>The channel layer\<close>

text \<open>
  What a consumer hands to \<^verbatim>\<open>channel_layer.group_send\<close>.  A serialised message
  (\<^verbatim>\<open>MessageSerializer(message).data\<close>) is represented by the message row it renders.
\<close>

datatype event =
    User_joined pk string
  | User_left "pk option" string
  | Chat_message Message
  | Chat_attachment Message
  | User_typing pk string json
  | User_presence_changed pk string bool "timestamp option"

text \<open>
  The layer: for each group the channels that joined it, and the log of the events sent
  to groups, oldest first.
\<close>

record channel_layer =
  groups :: "string \<Rightarrow> string set"
  published :: "(string \<times> event) list"

definition group_add :: "string \<Rightarrow> string \<Rightarrow> channel_layer \<Rightarrow> channel_layer" where
  "group_add g channel l = l\<lparr>groups := (groups l)(g := insert channel (groups l g))\<rparr>"

definition group_discard :: "string \<Rightarrow> string \<Rightarrow> channel_layer \<Rightarrow> channel_layer" where
  "group_discard g channel l = l\<lparr>groups := (groups l)(g := groups l g - {channel})\<rparr>"

definition group_send :: "string \<Rightarrow> event \<Rightarrow> channel_layer \<Rightarrow> channel_layer" where
  "group_send g ev l = l\<lparr>published := published l @ [(g, ev)]\<rparr>"

definition get_room_channel_group :: "int \<Rightarrow> string" where
  "get_room_channel_group room_id = ''chat_'' @ str_int room_id"

text \<open>Everything a connection can read or write outside itself.\<close>

record world =
  w_db :: database
  w_redis :: redis
  w_layer :: channel_layer

section \<open>Signing in over the socket (\<^verbatim>\<open>apps/accounts\<close>)\<close>

text \<open>
  \<^verbatim>\<open>user_status_changed\<close>, the \<^verbatim>\<open>post_save\<close> receiver of \<^verbatim>\<open>User\<close>: it reads the
  row back from the database, after the save that triggered it, and compares it with
  the saved instance; on a difference it sends \<^verbatim>\<open>user_presence_changed\<close> to the group
  of every room the user is an active member of.
\<close>

definition user_status_changed :: "User \<Rightarrow> bool \<Rightarrow> world \<Rightarrow> world" where
  "user_status_changed instance created w =
     (if \<not> created \<and> u_id instance \<noteq> 0
      then
        (case User_objects_get (u_id instance) (w_db w) of
           Inl e \<Rightarrow> w
         | Inr old_instance \<Rightarrow>
             if u_is_online old_instance \<noteq> u_is_online instance
             then w\<lparr>w_layer :=
                    fold (\<lambda>membership.
                            group_send (''chat_'' @ str_int (rm_room membership))
                              (User_presence_changed (u_id instance) (get_full_name instance)
                                 (u_is_online instance) (u_last_seen instance)))
                      (filter (\<lambda>ms. rm_user ms = u_id instance \<and> rm_is_active ms)
                         (memberships (w_db w)))
                      (w_layer w)\<rparr>
             else w)
      else w)"

text \<open>
  \<^verbatim>\<open>User.set_online\<close>: sets the two fields on the instance, saves them with
  \<^verbatim>\<open>save(update_fields=["is_online", "last_seen"])\<close>, and the save fires
  \<^verbatim>\<open>post_save\<close>.
\<close>

definition User_set_online :: "User \<Rightarrow> world \<Rightarrow> User \<times> world" where
  "User_set_online user w =
     (let user' = user\<lparr>u_is_online := True, u_last_seen := None\<rparr>;
          db = w_db w;
          db' = db\<lparr>users := map (\<lambda>row. if u_id row = u_id user'
                                        then row\<lparr>u_is_online := u_is_online user',
                                                 u_last_seen := u_last_seen user'\<rparr>
                                        else row) (users db)\<rparr>
      in (user', user_status_changed user' False (w\<lparr>w_db := db'\<rparr>)))"

text \<open>
  Who is connecting: \<^verbatim>\<open>scope["user"]\<close> is \<^verbatim>\<open>AnonymousUser()\<close> or a \<^verbatim>\<open>User\<close>.
\<close>

datatype principal = AnonymousUser | AuthUser User

text \<open>
  \<^verbatim>\<open>get_user_from_token\<close>.  \<open>access_token\<close> stands for the library's
  \<^verbatim>\<open>AccessToken(token_string).payload.get("user_id")\<close>: the user identifier a valid
  token carries, \<^verbatim>\<open>None\<close> for a token that is rejected or carries none.
\<close>

definition get_user_from_token :: "(string \<Rightarrow> pk option) \<Rightarrow> string \<Rightarrow> database \<Rightarrow> principal" where
  "get_user_from_token access_token token_string db =
     (case access_token token_string of
        None \<Rightarrow> AnonymousUser
      | Some user_id \<Rightarrow>
          if user_id = 0 then AnonymousUser
          else (case User_objects_get user_id db of
                  Inl e \<Rightarrow> AnonymousUser
                | Inr user \<Rightarrow> AuthUser user))"

text \<open>
  \<^verbatim>\<open>JWTAuthMiddleware.__call__\<close>.  \<open>token\<close> is \<^verbatim>\<open>params.get("token")\<close> of the
  query string; the result is the user put into the scope.
\<close>

definition JWTAuthMiddleware_call ::
  "(string \<Rightarrow> pk option) \<Rightarrow> string option \<Rightarrow> world \<Rightarrow> principal \<times> world" where
  "JWTAuthMiddleware_call access_token token w =
     (case token of
        None \<Rightarrow> (AnonymousUser, w)
      | Some token_string \<Rightarrow>
          if token_string = [] then (AnonymousUser, w)
          else
            (case get_user_from_token access_token token_string (w_db w) of
               AnonymousUser \<Rightarrow> (AnonymousUser, w)
             | AuthUser user \<Rightarrow>
                 (let (user', w') = User_set_online user w in (AuthUser user', w'))))"

section \<open>The chat consumer (\<^verbatim>\<open>apps/chat/consumers.py\<close>)\<close>

subsection \<open>Inbound envelopes\<close>

text \<open>
  The Pydantic models of the inbound envelopes.  A handler builds one with
  \<^verbatim>\<open>Model(**data)\<close> from the decoded object, whose \<^verbatim>\<open>type\<close> entry is, at that
  point, the handler's own tag; keys the model does not declare are ignored.  The
  validators run in their default, lax mode.  A \<^verbatim>\<open>str\<close> field takes a JSON
  string.  An \<^verbatim>\<open>int\<close> field takes an integer, a boolean (as 0 or 1), a number with
  no fractional part, and a string that is a decimal numeral, with or without a sign;
  an \<^verbatim>\<open>Optional[int]\<close> field also takes \<^verbatim>\<open>null\<close> or no entry.  Every other value
  of a field is reported as a validation error.
\<close>

record MessageData =
  md_content :: string
  md_reply_to :: "int option"

record AttachmentData =
  ad_message_id :: "int option"
  ad_filename :: string
  ad_file_url :: string
  ad_file_type :: string
  ad_file_size :: int

fun digits_value :: "nat \<Rightarrow> string \<Rightarrow> nat option" where
  "digits_value acc [] = Some acc"
| "digits_value acc (c # cs) =
     (if c \<in> set ''0123456789''
      then digits_value (10 * acc + (of_char c - 48)) cs
      else None)"

definition numeral_value :: "string \<Rightarrow> int option" where
  "numeral_value s =
     (case s of
        [] \<Rightarrow> None
      | c # cs \<Rightarrow>
          if c = CHR ''-'' then (if cs = [] then None else map_option (\<lambda>n. - int n) (digits_value 0 cs))
          else if c = CHR ''+'' then (if cs = [] then None else map_option int (digits_value 0 cs))
          else map_option int (digits_value 0 s))"

definition pydantic_int :: "json \<Rightarrow> exn + int" where
  "pydantic_int v =
     (case v of
        JInt i \<Rightarrow> Inr i
      | JBool b \<Rightarrow> Inr (if b then 1 else 0)
      | JFloat r \<Rightarrow> if of_int \<lfloor>r\<rfloor> = r then Inr \<lfloor>r\<rfloor> else Inl PydanticValidationError
      | JString s \<Rightarrow>
          (case numeral_value s of
             None \<Rightarrow> Inl PydanticValidationError
           | Some i \<Rightarrow> Inr i)
      | other \<Rightarrow> Inl PydanticValidationError)"

definition optional_int :: "json option \<Rightarrow> exn + int option" where
  "optional_int v =
     (case v of
        None \<Rightarrow> Inr None
      | Some JNull \<Rightarrow> Inr None
      | Some other \<Rightarrow>
          (case pydantic_int other of
             Inl e \<Rightarrow> Inl e
           | Inr i \<Rightarrow> Inr (Some i)))"

definition MessageMessage :: "(string \<times> json) list \<Rightarrow> exn + MessageData" where
  "MessageMessage data =
     (case map_of data ''data'' of
        Some (JObject d) \<Rightarrow>
          (case map_of d ''content'' of
             Some (JString content) \<Rightarrow>
               (case optional_int (map_of d ''reply_to'') of
                  Inl e \<Rightarrow> Inl e
                | Inr reply_to \<Rightarrow> Inr \<lparr>md_content = content, md_reply_to = reply_to\<rparr>)
           | other \<Rightarrow> Inl PydanticValidationError)
      | other \<Rightarrow> Inl PydanticValidationError)"

definition AttachmentMessage :: "(string \<times> json) list \<Rightarrow> exn + AttachmentData" where
  "AttachmentMessage data =
     (case map_of data ''data'' of
        Some (JObject d) \<Rightarrow>
          (case (optional_int (map_of d ''message_id''), map_of d ''filename'',
                 map_of d ''file_url'', map_of d ''file_type'',
                 map_option pydantic_int (map_of d ''file_size'')) of
             (Inr message_id, Some (JString filename), Some (JString file_url),
              Some (JString file_type), Some (Inr file_size)) \<Rightarrow>
               Inr \<lparr>ad_message_id = message_id, ad_filename = filename, ad_file_url = file_url,
                    ad_file_type = file_type, ad_file_size = file_size\<rparr>
           | other \<Rightarrow> Inl PydanticValidationError)
      | other \<Rightarrow> Inl PydanticValidationError)"

text \<open>\<^verbatim>\<open>TypingMessage\<close>: \<^verbatim>\<open>data: Dict[str, Any] = {}\<close>.\<close>

definition TypingMessage :: "(string \<times> json) list \<Rightarrow> exn + (string \<times> json) list" where
  "TypingMessage data =
     (case map_of data ''data'' of
        None \<Rightarrow> Inr []
      | Some (JObject d) \<Rightarrow> Inr d
      | Some other \<Rightarrow> Inl PydanticValidationError)"

subsection \<open>The connection\<close>

text \<open>The texts of the local \<^verbatim>\<open>error\<close> envelopes, and the two local envelopes.\<close>

datatype error_text =
    Message_type_is_required
  | Unknown_message_type json
  | Invalid_JSON
  | Validation_error
  | Internal_server_error
  | Invalid_message
  | Failed_to_send_message
  | Invalid_attachment_message
  | Failed_to_send_attachment
  | Invalid_typing_message

datatype frame = Error_envelope error_text | Success_envelope string

text \<open>
  A \<^verbatim>\<open>ChatConsumer\<close> instance: the three attributes \<^verbatim>\<open>__init__\<close> sets to
  \<^verbatim>\<open>None\<close>, the channel name the layer gave it, and what it did on its socket
  (accepted the handshake, closed with a code, sent frames to its own client).
\<close>

record ChatConsumer =
  c_room_id :: "pk option"
  c_room_group_name :: "string option"
  c_user :: "principal option"
  c_channel_name :: string
  c_accepted :: bool
  c_close_code :: "int option"
  c_sent :: "frame list"

definition close :: "int \<Rightarrow> ChatConsumer \<Rightarrow> ChatConsumer" where
  "close code self = self\<lparr>c_close_code := Some code\<rparr>"

definition accept :: "ChatConsumer \<Rightarrow> ChatConsumer" where
  "accept self = self\<lparr>c_accepted := True\<rparr>"

definition send_error :: "error_text \<Rightarrow> ChatConsumer \<Rightarrow> ChatConsumer" where
  "send_error message self = self\<lparr>c_sent := c_sent self @ [Error_envelope message]\<rparr>"

definition send_success :: "string \<Rightarrow> ChatConsumer \<Rightarrow> ChatConsumer" where
  "send_success message self = self\<lparr>c_sent := c_sent self @ [Success_envelope message]\<rparr>"

text \<open>
  \<^verbatim>\<open>ChatConsumer.connect\<close>.  \<open>room_id\<close> is the \<^verbatim>\<open>room_id\<close> of the URL route and
  \<open>scope_user\<close> is \<^verbatim>\<open>self.scope.get("user")\<close>.  The attributes are set before the
  checks.  \<^verbatim>\<open>set_user_online\<close> runs inside the \<^verbatim>\<open>try\<close>: an exception from it closes
  the connection with \<^verbatim>\<open>4000\<close>, after the group was joined and the handshake accepted.
\<close>

definition connect ::
  "nat \<Rightarrow> pk \<Rightarrow> principal option \<Rightarrow> ChatConsumer \<Rightarrow> world \<Rightarrow> ChatConsumer \<times> world" where
  "connect now room_id scope_user self w =
     (let room_group_name = get_room_channel_group room_id;
          self1 = self\<lparr>c_room_id := Some room_id,
                       c_room_group_name := Some room_group_name,
                       c_user := scope_user\<rparr>
      in case scope_user of
           None \<Rightarrow> (close 4001 self1, w)
         | Some AnonymousUser \<Rightarrow> (close 4001 self1, w)
         | Some (AuthUser user) \<Rightarrow>
             if \<not> is_room_member (w_db w) user room_id then (close 4003 self1, w)
             else
               (let w1 = w\<lparr>w_layer := group_add room_group_name (c_channel_name self1) (w_layer w)\<rparr>;
                    self2 = accept self1
                in case set_user_online now (u_id user) (Some room_id) (w_redis w1) of
                     (Some e, redis') \<Rightarrow> (close 4000 self2, w1\<lparr>w_redis := redis'\<rparr>)
                   | (None, redis') \<Rightarrow>
                       (self2,
                        w1\<lparr>w_redis := redis',
                           w_layer := group_send room_group_name
                                        (User_joined (u_id user) (get_full_name user))
                                        (w_layer w1)\<rparr>)))"

text \<open>
  A connection attempt as the server runs it: the authentication middleware fills the
  scope, then the consumer's \<^verbatim>\<open>connect\<close> runs on a fresh instance.
\<close>

definition new_consumer :: "string \<Rightarrow> ChatConsumer" where
  "new_consumer channel_name =
     \<lparr>c_room_id = None, c_room_group_name = None, c_user = None,
      c_channel_name = channel_name, c_accepted = False, c_close_code = None, c_sent = []\<rparr>"

definition connection_attempt ::
  "(string \<Rightarrow> pk option) \<Rightarrow> nat \<Rightarrow> string option \<Rightarrow> pk \<Rightarrow> string \<Rightarrow> world
     \<Rightarrow> ChatConsumer \<times> world" where
  "connection_attempt access_token now token room_id channel_name w =
     (let (user, w') = JWTAuthMiddleware_call access_token token w
      in connect now room_id (Some user) (new_consumer channel_name) w')"

text \<open>
  \<^verbatim>\<open>ChatConsumer.disconnect\<close>.  Both steps are guarded by the attributes that
  \<^verbatim>\<open>connect\<close> sets, and the whole body is inside one \<^verbatim>\<open>try\<close> whose handler only
  logs.  With an \<^verbatim>\<open>AnonymousUser\<close> the event cannot be built
  (\<^verbatim>\<open>get_full_name\<close> is missing), which ends the body after the group was left; and
  \<^verbatim>\<open>set_user_offline(None)\<close> deletes the key \<^verbatim>\<open>presence:user:None\<close> and then
  fails on the first room key, since \<^verbatim>\<open>None\<close> is no value the client can send.
\<close>

definition disconnect :: "nat \<Rightarrow> int \<Rightarrow> ChatConsumer \<Rightarrow> world \<Rightarrow> ChatConsumer \<times> world" where
  "disconnect now close_code self w =
     (let left =
            (case c_room_group_name self of
               None \<Rightarrow> Inr w
             | Some g \<Rightarrow>
                 if g = [] then Inr w
                 else
                   (let w1 = w\<lparr>w_layer := group_discard g (c_channel_name self) (w_layer w)\<rparr>
                    in case c_user self of
                         None \<Rightarrow>
                           Inr (w1\<lparr>w_layer := group_send g (User_left None ''Unknown'')
                                                 (w_layer w1)\<rparr>)
                       | Some AnonymousUser \<Rightarrow> Inl w1
                       | Some (AuthUser user) \<Rightarrow>
                           Inr (w1\<lparr>w_layer := group_send g
                                                 (User_left (Some (u_id user)) (get_full_name user))
                                                 (w_layer w1)\<rparr>)))
      in case left of
           Inl w' \<Rightarrow> (self, w')
         | Inr w' \<Rightarrow>
             (case c_user self of
                None \<Rightarrow> (self, w')
              | Some AnonymousUser \<Rightarrow>
                  (self, w'\<lparr>w_redis := redis_delete ''presence:user:None'' (w_redis w')\<rparr>)
              | Some (AuthUser user) \<Rightarrow>
                  (self, w'\<lparr>w_redis := snd (set_user_offline now (u_id user) (w_redis w'))\<rparr>)))"

subsection \<open>Creating messages\<close>

text \<open>
  \<^verbatim>\<open>ChatConsumer.create_message\<close>.  \<^verbatim>\<open>if reply_to:\<close> skips the lookup for
  \<^verbatim>\<open>None\<close> and for \<^verbatim>\<open>0\<close>; \<^verbatim>\<open>Message.DoesNotExist\<close> is caught and leaves
  \<^verbatim>\<open>reply_to_obj\<close> at \<^verbatim>\<open>None\<close>.  The message type is the field default, \<^verbatim>\<open>text\<close>.
\<close>

definition create_message ::
  "timestamp \<Rightarrow> pk \<Rightarrow> User \<Rightarrow> string \<Rightarrow> int option \<Rightarrow> database \<Rightarrow> exn + (Message \<times> database)" where
  "create_message now room_id sender content reply_to db =
     (let reply_to_obj =
            (case reply_to of
               None \<Rightarrow> None
             | Some i \<Rightarrow>
                 if i = 0 then None
                 else (case Message_objects_get i db of
                         Inl e \<Rightarrow> None
                       | Inr m \<Rightarrow> Some m))
      in Message_objects_create now room_id (u_id sender) content ''text''
           (map_option m_id reply_to_obj) db)"

text \<open>
  The argument \<^verbatim>\<open>attachment_data\<close> of \<^verbatim>\<open>create_attachment_message\<close> is read with
  \<^verbatim>\<open>attachment_data["filename"]\<close>.  A dictionary supports the subscript; a Pydantic
  model instance does not (\<^verbatim>\<open>BaseModel\<close> has no \<^verbatim>\<open>__getitem__\<close>), and the
  subscript raises \<^verbatim>\<open>TypeError\<close>.
\<close>

datatype attachment_arg = Model AttachmentData | Dict AttachmentData

definition getitem :: "attachment_arg \<Rightarrow> (AttachmentData \<Rightarrow> 'a) \<Rightarrow> exn + 'a" where
  "getitem attachment_data field =
     (case attachment_data of
        Dict d \<Rightarrow> Inr (field d)
      | Model d \<Rightarrow> Inl TypeError)"

text \<open>
  \<^verbatim>\<open>ChatConsumer.create_attachment_message\<close>.  The message row is inserted first;
  the keyword arguments of \<^verbatim>\<open>Attachment.objects.create\<close> are evaluated next, in
  order.  Nothing wraps the two inserts in a transaction, so the result carries the
  database as the last completed statement left it.
\<close>

definition create_attachment_message ::
  "timestamp \<Rightarrow> pk \<Rightarrow> User \<Rightarrow> attachment_arg \<Rightarrow> database \<Rightarrow> (exn + Message) \<times> database" where
  "create_attachment_message now room_id sender attachment_data db =
     (case Message_objects_create now room_id (u_id sender) [] ''attachment'' None db of
        Inl e \<Rightarrow> (Inl e, db)
      | Inr (message, db1) \<Rightarrow>
          (case getitem attachment_data ad_filename of
             Inl e \<Rightarrow> (Inl e, db1)
           | Inr filename \<Rightarrow>
               (case getitem attachment_data ad_file_type of
                  Inl e \<Rightarrow> (Inl e, db1)
                | Inr file_type \<Rightarrow>
                    (case getitem attachment_data ad_file_size of
                       Inl e \<Rightarrow> (Inl e, db1)
                     | Inr file_size \<Rightarrow>
                         (case Attachment_objects_create now message filename file_type
                                 file_size ''application/octet-stream'' db1 of
                            Inl e \<Rightarrow> (Inl e, db1)
                          | Inr (attachment, db2) \<Rightarrow> (Inr message, db2))))))"

subsection \<open>Handlers\<close>

text \<open>
  Each handler returns the consumer and the world it leaves.  \<^verbatim>\<open>JoinMessage\<close> and
  \<^verbatim>\<open>LeaveMessage\<close> declare the \<^verbatim>\<open>type\<close> field only, so building them from a
  dispatched object cannot fail.  \<^verbatim>\<open>handle_message\<close> and
  \<^verbatim>\<open>handle_attachment\<close> catch every exception themselves; \<^verbatim>\<open>handle_typing\<close>
  catches the Pydantic error only, so another exception leaves it (the \<open>Inl\<close> result)
  for \<^verbatim>\<open>receive\<close> to catch.  Sending to the group \<^verbatim>\<open>None\<close> is a \<^verbatim>\<open>TypeError\<close> of
  the layer; reading \<^verbatim>\<open>.id\<close> or \<^verbatim>\<open>get_full_name\<close> off a missing or anonymous user is
  an \<^verbatim>\<open>AttributeError\<close>; inserting a message with no room or no \<^verbatim>\<open>User\<close> as sender
  is refused by the database or the field.
\<close>

definition handle_join :: "ChatConsumer \<Rightarrow> world \<Rightarrow> ChatConsumer \<times> world" where
  "handle_join self w = (send_success ''Joined room'' self, w)"

definition handle_leave :: "ChatConsumer \<Rightarrow> world \<Rightarrow> ChatConsumer \<times> world" where
  "handle_leave self w = (close 1000 (send_success ''Leaving room'' self), w)"

definition handle_message ::
  "timestamp \<Rightarrow> (string \<times> json) list \<Rightarrow> ChatConsumer \<Rightarrow> world \<Rightarrow> ChatConsumer \<times> world" where
  "handle_message now data self w =
     (case MessageMessage data of
        Inl e \<Rightarrow> (send_error Invalid_message self, w)
      | Inr message \<Rightarrow>
          (case (c_room_id self, c_user self) of
             (Some room_id, Some (AuthUser sender)) \<Rightarrow>
               (case create_message now room_id sender (md_content message)
                       (md_reply_to message) (w_db w) of
                  Inl e \<Rightarrow> (send_error Failed_to_send_message self, w)
                | Inr (db_message, db') \<Rightarrow>
                    (case c_room_group_name self of
                       None \<Rightarrow> (send_error Failed_to_send_message self, w\<lparr>w_db := db'\<rparr>)
                     | Some g \<Rightarrow>
                         (self, w\<lparr>w_db := db',
                                  w_layer := group_send g (Chat_message db_message) (w_layer w)\<rparr>)))
           | other \<Rightarrow> (send_error Failed_to_send_message self, w)))"

definition handle_attachment ::
  "timestamp \<Rightarrow> (string \<times> json) list \<Rightarrow> ChatConsumer \<Rightarrow> world \<Rightarrow> ChatConsumer \<times> world" where
  "handle_attachment now data self w =
     (case AttachmentMessage data of
        Inl e \<Rightarrow> (send_error Invalid_attachment_message self, w)
      | Inr message \<Rightarrow>
          (case (c_room_id self, c_user self) of
             (Some room_id, Some (AuthUser sender)) \<Rightarrow>
               (case create_attachment_message now room_id sender (Model message) (w_db w) of
                  (Inl e, db') \<Rightarrow> (send_error Failed_to_send_attachment self, w\<lparr>w_db := db'\<rparr>)
                | (Inr db_message, db') \<Rightarrow>
                    (case c_room_group_name self of
                       None \<Rightarrow> (send_error Failed_to_send_attachment self, w\<lparr>w_db := db'\<rparr>)
                     | Some g \<Rightarrow>
                         (self, w\<lparr>w_db := db',
                                  w_layer := group_send g (Chat_attachment db_message) (w_layer w)\<rparr>)))
           | other \<Rightarrow> (send_error Failed_to_send_attachment self, w)))"

definition handle_typing ::
  "(string \<times> json) list \<Rightarrow> ChatConsumer \<Rightarrow> world \<Rightarrow> exn + (ChatConsumer \<times> world)" where
  "handle_typing data self w =
     (case TypingMessage data of
        Inl e \<Rightarrow> Inr (send_error Invalid_typing_message self, w)
      | Inr d \<Rightarrow>
          (case c_user self of
             Some (AuthUser user) \<Rightarrow>
               (case c_room_group_name self of
                  None \<Rightarrow> Inl TypeError
                | Some g \<Rightarrow>
                    Inr (self,
                         w\<lparr>w_layer :=
                             group_send g
                               (User_typing (u_id user) (get_full_name user)
                                  (case map_of d ''is_typing'' of None \<Rightarrow> JBool True | Some v \<Rightarrow> v))
                               (w_layer w)\<rparr>))
           | other \<Rightarrow> Inl AttributeError))"

subsection \<open>Dispatch\<close>

text \<open>
  \<^verbatim>\<open>ChatConsumer.receive(text_data)\<close>.  \<open>json_loads\<close> stands for the library's
  \<^verbatim>\<open>json.loads\<close>: the decoded value, or \<^verbatim>\<open>None\<close> where it raises
  \<^verbatim>\<open>JSONDecodeError\<close>.  \<^verbatim>\<open>data.get("type")\<close> on a value that is not an object is an
  \<^verbatim>\<open>AttributeError\<close>, and \<^verbatim>\<open>handlers.get\<close> of an unhashable value a
  \<^verbatim>\<open>TypeError\<close>; both, like an exception that leaves a handler, end in the last
  \<^verbatim>\<open>except\<close> clause.
\<close>

definition receive ::
  "(string \<Rightarrow> json option) \<Rightarrow> timestamp \<Rightarrow> string \<Rightarrow> ChatConsumer \<Rightarrow> world
     \<Rightarrow> ChatConsumer \<times> world" where
  "receive json_loads now text_data self w =
     (case json_loads text_data of
        None \<Rightarrow> (send_error Invalid_JSON self, w)
      | Some (JObject data) \<Rightarrow>
          (let message_type = (case map_of data ''type'' of None \<Rightarrow> JNull | Some v \<Rightarrow> v)
           in if \<not> truthy message_type then (send_error Message_type_is_required self, w)
              else if \<not> hashable message_type then (send_error Internal_server_error self, w)
              else if message_type = JString ''join'' then handle_join self w
              else if message_type = JString ''leave'' then handle_leave self w
              else if message_type = JString ''message'' then handle_message now data self w
              else if message_type = JString ''attachment'' then handle_attachment now data self w
              else if message_type = JString ''typing'' then
                (case handle_typing data self w of
                   Inl e \<Rightarrow> (send_error Internal_server_error self, w)
                 | Inr result \<Rightarrow> result)
              else (send_error (Unknown_message_type message_type) self, w))
      | Some other \<Rightarrow> (send_error Internal_server_error self, w))"

section \<open>The REST views of the chat application (\<^verbatim>\<open>apps/chat/views.py\<close>)\<close>

subsection \<open>Room history\<close>

text \<open>
  \<^verbatim>\<open>ChatRoomViewSet\<close>: the queryset is the active rooms, \<^verbatim>\<open>get_queryset\<close> keeps
  those with \<^verbatim>\<open>participants=user\<close> (a membership row of the user, active or not),
  and \<^verbatim>\<open>get_object\<close> answers 404 for a key outside it.
\<close>

definition has_membership :: "database \<Rightarrow> pk \<Rightarrow> pk \<Rightarrow> bool" where
  "has_membership db user room_id =
     list_ex (\<lambda>ms. rm_room ms = room_id \<and> rm_user ms = user) (memberships db)"

definition ChatRoomViewSet_get_object :: "pk \<Rightarrow> pk \<Rightarrow> database \<Rightarrow> api_error + ChatRoom" where
  "ChatRoomViewSet_get_object user pk db =
     (case find (\<lambda>room. r_is_active room \<and> has_membership db user (r_id room) \<and> r_id room = pk)
             (rooms db) of
        None \<Rightarrow> Inl NotFound
      | Some room \<Rightarrow> Inr room)"

text \<open>
  The \<^verbatim>\<open>ordering\<close> query parameter, for the timestamp and key columns of a message:
  \<^verbatim>\<open>created_at\<close> is \<open>Asc Created_at\<close>, \<^verbatim>\<open>-created_at\<close> is \<open>Desc Created_at\<close>, and
  so on.  \<^verbatim>\<open>order_by\<close> sorts on that one column; the order of rows with equal
  values is whatever the database returns, here the order the sort finds them in.
\<close>

datatype column = Created_at | Updated_at | Id

datatype ordering = Asc column | Desc column

fun column_value :: "column \<Rightarrow> Message \<Rightarrow> int" where
  "column_value Created_at m = m_created_at m"
| "column_value Updated_at m = m_updated_at m"
| "column_value Id m = m_id m"

fun order_by :: "ordering \<Rightarrow> Message list \<Rightarrow> Message list" where
  "order_by (Asc c) ms = sort_key (column_value c) ms"
| "order_by (Desc c) ms = sort_key (\<lambda>m. - column_value c m) ms"

text \<open>
  \<^verbatim>\<open>StandardResultsSetPagination\<close>: pages of 50, a \<^verbatim>\<open>page_size\<close> parameter capped
  at 100 (one that is not a positive number falls back to 50), and 404 for a page
  number outside the pages there are (an empty result still has its page 1).
\<close>

definition paginate_queryset :: "nat option \<Rightarrow> nat option \<Rightarrow> 'a list \<Rightarrow> api_error + 'a list" where
  "paginate_queryset page_size page xs =
     (let size = (case page_size of None \<Rightarrow> 50 | Some n \<Rightarrow> if n = 0 then 50 else min n 100);
          number = (case page of None \<Rightarrow> 1 | Some p \<Rightarrow> p);
          num_pages = max 1 ((length xs + size - 1) div size)
      in if number < 1 \<or> num_pages < number then Inl NotFound
         else Inr (take size (drop ((number - 1) * size) xs)))"

text \<open>
  \<^verbatim>\<open>ChatRoomViewSet.messages\<close>.  \<open>icontains\<close> stands for the database's match of
  the \<^verbatim>\<open>search\<close> text against a message's content and its sender's names and email.
  \<^verbatim>\<open>ordering = request.query_params.get("ordering", "-created_at")\<close>.
\<close>

definition ChatRoomViewSet_messages ::
  "(string \<Rightarrow> Message \<Rightarrow> bool) \<Rightarrow> pk \<Rightarrow> pk \<Rightarrow> string option \<Rightarrow> ordering option
     \<Rightarrow> nat option \<Rightarrow> nat option \<Rightarrow> database \<Rightarrow> api_error + Message list" where
  "ChatRoomViewSet_messages icontains user pk search ordering_param page_size page db =
     (case ChatRoomViewSet_get_object user pk db of
        Inl e \<Rightarrow> Inl e
      | Inr room \<Rightarrow>
          if \<not> has_membership db user (r_id room) then Inl PermissionDenied
          else
            (let room_messages = filter (\<lambda>m. m_room m = r_id room) (messages db);
                 found = (case search of
                            None \<Rightarrow> room_messages
                          | Some text \<Rightarrow>
                              if text = [] then room_messages
                              else filter (icontains text) room_messages);
                 ordering = (case ordering_param of None \<Rightarrow> Desc Created_at | Some ord \<Rightarrow> ord)
             in paginate_queryset page_size page (order_by ordering found)))"

subsection \<open>Editing a message\<close>

text \<open>
  \<^verbatim>\<open>MessageViewSet.get_queryset\<close>:
  \<^verbatim>\<open>filter(room__participants=user, room__memberships__is_active=True,
  room__is_active=True)\<close>, the messages of active rooms in which the user has an active
  membership; \<^verbatim>\<open>get_object\<close> answers 404 for a key outside it.
\<close>

definition MessageViewSet_get_queryset :: "pk \<Rightarrow> database \<Rightarrow> Message \<Rightarrow> bool" where
  "MessageViewSet_get_queryset user db m =
     list_ex (\<lambda>room. r_id room = m_room m \<and> r_is_active room
                      \<and> active_membership db user (r_id room)) (rooms db)"

definition MessageViewSet_get_object :: "pk \<Rightarrow> pk \<Rightarrow> database \<Rightarrow> api_error + Message" where
  "MessageViewSet_get_object user pk db =
     (case find (\<lambda>m. MessageViewSet_get_queryset user db m \<and> m_id m = pk) (messages db) of
        None \<Rightarrow> Inl NotFound
      | Some m \<Rightarrow> Inr m)"

text \<open>
  What \<^verbatim>\<open>MessageSerializer(message, data=request.data, partial=True)\<close> validates: a
  value for each writable field the request names.
\<close>

record validated_data =
  vd_room :: "pk option"
  vd_content :: "string option"
  vd_message_type :: "string option"
  vd_reply_to :: "pk option option"

definition serializer_update :: "validated_data \<Rightarrow> Message \<Rightarrow> Message" where
  "serializer_update vd m =
     m\<lparr>m_room := (case vd_room vd of None \<Rightarrow> m_room m | Some r \<Rightarrow> r),
       m_content := (case vd_content vd of None \<Rightarrow> m_content m | Some c \<Rightarrow> c),
       m_message_type := (case vd_message_type vd of None \<Rightarrow> m_message_type m | Some t \<Rightarrow> t),
       m_reply_to := (case vd_reply_to vd of None \<Rightarrow> m_reply_to m | Some r \<Rightarrow> r)\<rparr>"

definition timedelta_minutes :: "int \<Rightarrow> int" where
  "timedelta_minutes n = n * 60 * 1000000"

text \<open>
  \<^verbatim>\<open>MessageViewSet.edit\<close>.  \<open>is_valid\<close> stands for the serializer's field
  validation of the request body (\<^verbatim>\<open>None\<close> where \<^verbatim>\<open>is_valid(raise_exception=True)\<close>
  raises); \<open>now\<close> is the clock reading of the age check and \<open>saved_at\<close> the one passed
  to \<^verbatim>\<open>serializer.save\<close>.  The result carries the response and the database.
\<close>

definition edit ::
  "('d \<Rightarrow> validated_data option) \<Rightarrow> timestamp \<Rightarrow> timestamp \<Rightarrow> pk \<Rightarrow> pk \<Rightarrow> 'd \<Rightarrow> database
     \<Rightarrow> (api_error + Message) \<times> database" where
  "edit is_valid now saved_at user pk data db =
     (case MessageViewSet_get_object user pk db of
        Inl e \<Rightarrow> (Inl e, db)
      | Inr message \<Rightarrow>
          if m_sender message \<noteq> user then (Inl PermissionDenied, db)
          else if now - m_created_at message > timedelta_minutes 15 then (Inl PermissionDenied, db)
          else
            (case is_valid data of
               None \<Rightarrow> (Inl ValidationError, db)
             | Some vd \<Rightarrow>
                 (let message' = (serializer_update vd message)
                                   \<lparr>m_is_edited := True, m_edited_at := Some saved_at,
                                    m_updated_at := saved_at\<rparr>
                  in (Inr message',
                      db\<lparr>messages := map (\<lambda>row. if m_id row = m_id message then message' else row)
                                          (messages db)\<rparr>))))"

text \<open>
  \<^verbatim>\<open>MessageCreateSerializer.validate\<close>, the check on the REST path that creates a
  message: \<open>message_type\<close> and \<open>content\<close> are the two entries of \<^verbatim>\<open>attrs\<close>, absent
  or present.
\<close>

definition MessageCreateSerializer_validate :: "string option \<Rightarrow> string option \<Rightarrow> api_error + unit" where
  "MessageCreateSerializer_validate message_type content =
     (let message_type' = (case message_type of None \<Rightarrow> ''text'' | Some t \<Rightarrow> t);
          content' = (case content of None \<Rightarrow> [] | Some c \<Rightarrow> c)
      in if message_type' = ''text'' \<and> strip content' = [] then Inl ValidationError else Inr ())"

text \<open>
  \<open>no_member now u st k\<close>: from the instant \<open>now\<close> on, whatever the key \<open>k\<close> holds is
  a set without the user \<open>u\<close>.
\<close>

definition no_member :: "nat \<Rightarrow> int \<Rightarrow> redis \<Rightarrow> string \<Rightarrow> bool" where
  "no_member now u st k \<longleftrightarrow>
     (\<forall>now' e. now \<le> now' \<longrightarrow> redis_lookup now' st k = Some e
        \<longrightarrow> (\<exists>ms. e_value e = RSet ms \<and> u \<notin> ms))"

section \<open>Example data\<close>

definition example_notification :: Notification where
  "example_notification =
     \<lparr>n_id = 1, n_created_at = 100, n_updated_at = 100, n_recipient = 7,
      n_notification_type = ''message'', n_title = ''New message'', n_message = ''hi'',
      n_is_read = False, n_read_at = None, n_related_room = Some 3,
      n_related_message = None, n_related_user = Some 8, n_extra_data = None\<rparr>"

definition example_presence :: redis where
  "example_presence =
     [(''presence:user:7'', \<lparr>e_value = RString ''online'', e_expires = Some 60000\<rparr>),
      (''presence:room:3'', \<lparr>e_value = RSet {7, 8}, e_expires = Some 60000\<rparr>),
      (''presence:room:4'', \<lparr>e_value = RSet {7}, e_expires = None\<rparr>)]"

text \<open>
  A small world: Bob owns room 3 and is connected to it; Alice has left the room (her
  membership row is inactive) but her presence keys are still in the store.
\<close>

definition alice :: User where
  "alice = \<lparr>u_id = 7, u_email = ''alice@example.com'', u_first_name = ''Alice'',
            u_last_name = ''Adams'', u_is_online = False, u_last_seen = None\<rparr>"

definition bob :: User where
  "bob = \<lparr>u_id = 8, u_email = ''bob@example.com'', u_first_name = ''Bob'',
          u_last_name = ''Brown'', u_is_online = True, u_last_seen = None\<rparr>"

definition hello :: Message where
  "hello = \<lparr>m_id = 1, m_created_at = 100, m_updated_at = 100, m_room = 3, m_sender = 7,
            m_content = ''hello'', m_message_type = ''text'', m_is_edited = False,
            m_edited_at = None, m_reply_to = None\<rparr>"

definition reply :: Message where
  "reply = \<lparr>m_id = 2, m_created_at = 200, m_updated_at = 200, m_room = 3, m_sender = 8,
            m_content = ''welcome'', m_message_type = ''text'', m_is_edited = False,
            m_edited_at = None, m_reply_to = Some 1\<rparr>"

definition example_db :: database where
  "example_db =
     \<lparr>users = [alice, bob],
      rooms = [\<lparr>r_id = 3, r_name = ''general'', r_room_type = ''group'', r_is_active = True,
                r_created_by = 8\<rparr>],
      memberships =
        [\<lparr>rm_id = 1, rm_user = 8, rm_room = 3, rm_role = ''owner'', rm_is_active = True\<rparr>,
         \<lparr>rm_id = 2, rm_user = 7, rm_room = 3, rm_role = ''member'', rm_is_active = False\<rparr>],
      messages = [hello, reply],
      attachments = [],
      message_seq = 2,
      attachment_seq = 0\<rparr>"

definition example_world :: world where
  "example_world =
     \<lparr>w_db = example_db,
      w_redis = example_presence,
      w_layer = \<lparr>groups = (\<lambda>g. if g = ''chat_3'' then {''specific.bob''} else {}),
                 published = []\<rparr>\<rparr>"

definition bob_consumer :: ChatConsumer where
  "bob_consumer =
     \<lparr>c_room_id = Some 3, c_room_group_name = Some ''chat_3'', c_user = Some (AuthUser bob),
      c_channel_name = ''specific.bob'', c_accepted = True, c_close_code = None, c_sent = []\<rparr>"

definition example_loads :: "string \<Rightarrow> json option" where
  \<open>example_loads text_data =
     (if text_data = ''{"type": "message", "data": {"content": "   "}}''
      then Some (JObject [(''type'', JString ''message''),
                          (''data'', JObject [(''content'', JString ''   '')])])
      else if text_data = ''{"type": "attachment", "data": {"filename": "a.png", "file_url": "/media/a.png", "file_type": "image", "file_size": 10, "message_id": 1}}''
      then Some (JObject [(''type'', JString ''attachment''),
                          (''data'', JObject [(''filename'', JString ''a.png''),
                                              (''file_url'', JString ''/media/a.png''),
                                              (''file_type'', JString ''image''),
                                              (''file_size'', JInt 10),
                                              (''message_id'', JInt 1)])])
      else if text_data = ''{"type": "shout"}''
      then Some (JObject [(''type'', JString ''shout'')])
      else if text_data = ''{"data": {}}''
      then Some (JObject [(''data'', JObject [])])
      else None)\<close>

definition example_access_token :: "string \<Rightarrow> pk option" where
  "example_access_token token_string =
     (if token_string = ''token-of-alice'' then Some 7
      else if token_string = ''token-of-bob'' then Some 8 else None)"

definition blank_message :: Message where
  "blank_message = \<lparr>m_id = 3, m_created_at = 1000, m_updated_at = 1000, m_room = 3, m_sender = 8,
            m_content = ''   '', m_message_type = ''text'', m_is_edited = False,
            m_edited_at = None, m_reply_to = None\<rparr>"


definition attachment_message :: Message where
  "attachment_message =
     \<lparr>m_id = 3, m_created_at = 1000, m_updated_at = 1000, m_room = 3, m_sender = 8,
      m_content = [], m_message_type = ''attachment'', m_is_edited = False,
      m_edited_at = None, m_reply_to = None\<rparr>"

definition edit_request :: validated_data where
  "edit_request = \<lparr>vd_room = None, vd_content = Some ''edited'', vd_message_type = None,
                    vd_reply_to = None\<rparr>"

definition archived_db :: database where
  "archived_db =
     example_db\<lparr>rooms := [\<lparr>r_id = 3, r_name = ''general'', r_room_type = ''group'',
                               r_is_active = False, r_created_by = 8\<rparr>]\<rparr>"

lemmas ex_defs = example_db_def example_world_def bob_consumer_def alice_def bob_def hello_def reply_def

section \<open>Notifications: read and unread transitions\<close>

text \<open>
  C8.  \<^verbatim>\<open>mark_as_read\<close> and \<^verbatim>\<open>mark_as_unread\<close> are idempotent: running
  \<^verbatim>\<open>mark_as_read\<close> again on the result of \<^verbatim>\<open>mark_as_read\<close> (at any later clock
  reading) returns the same instance and the same table, and \<^verbatim>\<open>mark_as_read\<close> on a
  notification that is already read changes neither the flag nor the timestamp nor the
  table; symmetrically for \<^verbatim>\<open>mark_as_unread\<close>.
\<close>

theorem mark_read_unread_idempotent:
  "(let (n1, tbl1) = mark_as_read t1 n tbl in mark_as_read t2 n1 tbl1 = (n1, tbl1))
   \<and> (n_is_read n \<longrightarrow> mark_as_read t n tbl = (n, tbl))
   \<and> (let (n1, tbl1) = mark_as_unread n tbl in mark_as_unread n1 tbl1 = (n1, tbl1))
   \<and> (\<not> n_is_read n \<longrightarrow> mark_as_unread n tbl = (n, tbl))"
  by (simp add: mark_as_read_def mark_as_unread_def Let_def)

theorem mark_read_unread_idempotent_witness:
  "\<not> n_is_read example_notification
   \<and> mark_as_unread example_notification [example_notification]
       = (example_notification, [example_notification])
   \<and> (let (n1, tbl1) = mark_as_read 500 example_notification [example_notification]
      in n_is_read n1 \<and> n_read_at n1 = Some 500 \<and> tbl1 = [n1]
         \<and> mark_as_read 900 n1 tbl1 = (n1, tbl1))"
  using mark_read_unread_idempotent
          [of 500 example_notification "[example_notification]" 900 500]
  by (simp add: example_notification_def mark_as_read_def mark_as_unread_def
      save_read_fields_def Let_def)

section \<open>Notifications: the bulk read operations\<close>

text \<open>
  C10.  \<^verbatim>\<open>mark_all_read\<close> and \<^verbatim>\<open>bulk_mark_read\<close> write the \<^verbatim>\<open>is_read\<close> column
  only: row by row, the table after the operation is the table before it up to
  \<^verbatim>\<open>is_read\<close>, so \<^verbatim>\<open>read_at\<close> and every other field are unchanged; every selected
  unread row of the user ends with \<^verbatim>\<open>is_read\<close> set and the \<^verbatim>\<open>read_at\<close> it had
  (\<^verbatim>\<open>None\<close> for a notification never read); the single \<^verbatim>\<open>mark_as_read\<close> on an unread
  notification does set \<^verbatim>\<open>read_at\<close>.
\<close>

theorem bulk_read_sets_only_is_read:
  "list_all2 (\<lambda>n n'. n' = n\<lparr>n_is_read := n_is_read n'\<rparr> \<and> n_read_at n' = n_read_at n)
      tbl (mark_all_read user tbl)
   \<and> list_all2 (\<lambda>n n'. n' = n\<lparr>n_is_read := n_is_read n'\<rparr> \<and> n_read_at n' = n_read_at n)
      tbl (snd (bulk_mark_read user ids tbl))
   \<and> (\<forall>n \<in> set tbl. n_recipient n = user \<and> \<not> n_is_read n
         \<longrightarrow> n\<lparr>n_is_read := True\<rparr> \<in> set (mark_all_read user tbl))
   \<and> (\<forall>n \<in> set tbl. n_recipient n = user \<and> n_id n \<in> set ids \<and> \<not> n_is_read n
         \<longrightarrow> n\<lparr>n_is_read := True\<rparr> \<in> set (snd (bulk_mark_read user ids tbl)))
   \<and> (\<not> n_is_read n \<longrightarrow> n_read_at (fst (mark_as_read now n tbl)) = Some now)"
proof -
  have frame: "list_all2 (\<lambda>n n'. n' = n\<lparr>n_is_read := n_is_read n'\<rparr> \<and> n_read_at n' = n_read_at n)
      tbl (update_is_read sel tbl)" for sel
    by (simp add: update_is_read_def list_all2_map2 list_all2_same)
  have effect: "\<forall>n \<in> set tbl. sel n \<longrightarrow> n\<lparr>n_is_read := True\<rparr> \<in> set (update_is_read sel tbl)" for sel
    by (auto simp: update_is_read_def intro!: image_eqI)
  have single: "\<not> n_is_read n \<longrightarrow> n_read_at (fst (mark_as_read now n tbl)) = Some now"
    by (simp add: mark_as_read_def Let_def)
  show ?thesis
    using frame effect single
    by (simp add: mark_all_read_def bulk_mark_read_def Let_def get_queryset_N_def)
qed

theorem bulk_read_sets_only_is_read_witness:
  "mark_all_read 7 [example_notification] = [example_notification\<lparr>n_is_read := True\<rparr>]
   \<and> bulk_mark_read 7 [1, 2] [example_notification]
       = (1, [example_notification\<lparr>n_is_read := True\<rparr>])
   \<and> n_read_at (example_notification\<lparr>n_is_read := True\<rparr>) = None
   \<and> n_read_at (fst (mark_as_read 500 example_notification [example_notification])) = Some 500"
  using bulk_read_sets_only_is_read
          [of "[example_notification]" 7 "[1, 2]" example_notification 500]
  by (simp add: example_notification_def mark_all_read_def bulk_mark_read_def
      update_is_read_def get_queryset_N_def mark_as_read_def Let_def)

section \<open>The presence store: online and offline\<close>

subsection \<open>Keys and patterns\<close>


lemma glob_star: "glob ''*'' s"
  by (induction s) auto

lemma glob_literal:
  "p \<noteq> CHR ''*'' \<Longrightarrow> glob (p # ps) (c # cs) = ((p = CHR ''?'' \<or> p = c) \<and> glob ps cs)"
  by simp

lemma glob_room_key: "glob ''presence:room:*'' (get_room_presence_key r)"
  by (simp add: get_room_presence_key_def glob_star glob_literal del: glob.simps)

lemma not_glob_user_key: "\<not> glob ''presence:room:*'' (get_user_presence_key u)"
  by (simp add: get_user_presence_key_def glob_literal del: glob.simps)

lemma user_key_neq_room_key: "get_user_presence_key u \<noteq> get_room_presence_key r"
  by (simp add: get_user_presence_key_def get_room_presence_key_def)

lemma hold_sets_map_of:
  "room_keys_hold_sets st \<Longrightarrow> map_of st name = Some e \<Longrightarrow> glob ''presence:room:*'' name \<Longrightarrow> holds_set e"
  by (auto simp: room_keys_hold_sets_def list_all_iff dest!: map_of_SomeD)

lemma lookup_update:
  "redis_lookup now (AList.update k e st) k' =
     (if k' = k then (if alive now e then Some e else None) else redis_lookup now st k')"
  by (simp add: redis_lookup_def update_conv')

lemma lookup_delete:
  "redis_lookup now (AList.delete k st) k' = (if k' = k then None else redis_lookup now st k')"
  by (simp add: redis_lookup_def delete_conv')

lemma lookup_holds_set:
  "room_keys_hold_sets st \<Longrightarrow> redis_lookup now st name = Some e \<Longrightarrow>
   glob ''presence:room:*'' name \<Longrightarrow> \<exists>ms. e_value e = RSet ms"
  by (auto simp: redis_lookup_def holds_set_def split: option.splits if_splits rvalue.splits
      dest!: hold_sets_map_of)

lemma lookup_alive: "redis_lookup now st name = Some e \<Longrightarrow> alive now e"
  by (simp add: redis_lookup_def split: option.splits if_splits)

lemma set_online_ok:
  assumes "room_keys_hold_sets st" "room_id \<noteq> 0" "now \<le> now'" "now' < now + 60000"
  shows "\<exists>st'. set_user_online now user_id (Some room_id) st = (None, st')
               \<and> is_user_online now' user_id st'
               \<and> (\<exists>online. get_online_users_in_room now' room_id st' = Inr online \<and> user_id \<in> online)"
proof -
  let ?uk = "get_user_presence_key user_id" and ?rk = "get_room_presence_key room_id"
  let ?st1 = "redis_setex now ?uk 60 ''online'' st"
  have ne: "?rk \<noteq> ?uk" using user_key_neq_room_key[of user_id room_id] by simp
  have l1: "redis_lookup now ?st1 ?rk = redis_lookup now st ?rk"
    using ne by (simp add: redis_setex_def lookup_update)
  show ?thesis
  proof (cases "redis_lookup now st ?rk")
    case None
    then show ?thesis using assms ne l1
      by (simp add: set_user_online_def Let_def redis_sadd_def redis_expire_def lookup_update
          is_user_online_def redis_exists_def get_online_users_in_room_def redis_smembers_def
          alive_def redis_setex_def)
  next
    case (Some e)
    then obtain ms where "e_value e = RSet ms"
      using lookup_holds_set[OF assms(1) Some glob_room_key] by blast
    then show ?thesis using Some assms ne l1 lookup_alive[OF Some]
      by (simp add: set_user_online_def Let_def redis_sadd_def redis_expire_def lookup_update
          is_user_online_def redis_exists_def get_online_users_in_room_def redis_smembers_def
          alive_def redis_setex_def)
  qed
qed

lemma alive_mono: "alive now' e \<Longrightarrow> now \<le> now' \<Longrightarrow> alive now e"
  by (auto simp: alive_def split: option.splits)

lemma set_update_subset: "set (AList.update k v al) \<subseteq> insert (k, v) (set al)"
  by (induction al) auto

lemma set_delete_subset: "set (AList.delete k al) \<subseteq> set al"
  by (induction al) auto

lemma hold_sets_update:
  "room_keys_hold_sets st \<Longrightarrow> holds_set e \<Longrightarrow> room_keys_hold_sets (AList.update k e st)"
  using set_update_subset[of k e st]
  by (auto simp: room_keys_hold_sets_def list_all_iff split: if_splits)

lemma hold_sets_delete:
  "room_keys_hold_sets st \<Longrightarrow> room_keys_hold_sets (AList.delete k st)"
  using set_delete_subset[of k st]
  by (auto simp: room_keys_hold_sets_def list_all_iff split: if_splits)

lemma srem_other:
  "redis_srem now k u st = Inr st' \<Longrightarrow> k' \<noteq> k \<Longrightarrow> map_of st' k' = map_of st k'"
  by (auto simp: redis_srem_def update_conv' delete_conv'
      split: option.splits rvalue.splits if_splits)

lemma no_member_cong: "map_of st' k = map_of st k \<Longrightarrow> no_member now u st' k = no_member now u st k"
  by (simp add: no_member_def redis_lookup_def)

lemma srem_same:
  assumes "redis_srem now k u st = Inr st'"
  shows "no_member now u st' k"
proof (cases "redis_lookup now st k")
  case None
  then have "st' = st" using assms by (simp add: redis_srem_def)
  moreover have "redis_lookup now' st k = None" if "now \<le> now'" for now'
    using None that by (auto simp: redis_lookup_def split: option.splits if_splits dest: alive_mono)
  ultimately show ?thesis by (simp add: no_member_def)
next
  case (Some e)
  then show ?thesis using assms
    by (auto simp: redis_srem_def no_member_def lookup_update lookup_delete
        split: rvalue.splits if_splits)
qed

lemma srem_succeeds:
  assumes "room_keys_hold_sets st" "glob ''presence:room:*'' k"
  shows "\<exists>st'. redis_srem now k u st = Inr st' \<and> room_keys_hold_sets st'"
proof (cases "redis_lookup now st k")
  case None
  then show ?thesis using assms by (simp add: redis_srem_def)
next
  case (Some e)
  then obtain ms where "e_value e = RSet ms"
    using lookup_holds_set[OF assms(1) Some assms(2)] by blast
  then show ?thesis using Some assms(1)
    by (simp add: redis_srem_def hold_sets_delete hold_sets_update holds_set_def)
qed

lemma srem_each_ok:
  assumes "room_keys_hold_sets st" "list_all (glob ''presence:room:*'') ks"
  shows "\<exists>st'. srem_each now u ks st = (None, st')
           \<and> (\<forall>k. k \<notin> set ks \<longrightarrow> map_of st' k = map_of st k)
           \<and> (\<forall>k \<in> set ks. no_member now u st' k)"
  using assms
proof (induction ks arbitrary: st)
  case Nil
  then show ?case by simp
next
  case (Cons k ks)
  then obtain st1 where s1: "redis_srem now k u st = Inr st1" and h1: "room_keys_hold_sets st1"
    using srem_succeeds[of st k now u] by auto
  from Cons.IH[OF h1] Cons.prems(2) obtain st' where
    r: "srem_each now u ks st1 = (None, st')"
    and o: "\<forall>k'. k' \<notin> set ks \<longrightarrow> map_of st' k' = map_of st1 k'"
    and n: "\<forall>k' \<in> set ks. no_member now u st' k'"
    by auto
  have "no_member now u st' k"
  proof (cases "k \<in> set ks")
    case True
    then show ?thesis using n by blast
  next
    case False
    then have "map_of st' k = map_of st1 k" using o by blast
    from no_member_cong[OF this] show ?thesis using srem_same[OF s1] by blast
  qed
  moreover have "\<forall>k'. k' \<notin> set (k # ks) \<longrightarrow> map_of st' k' = map_of st k'"
    using o srem_other[OF s1] by auto
  ultimately show ?case using s1 r n by simp
qed

lemma set_offline_ok:
  assumes "room_keys_hold_sets st" "now \<le> now'"
  shows "\<exists>st'. set_user_offline now user_id st = (None, st')
               \<and> \<not> is_user_online now' user_id st'
               \<and> (\<forall>room_id. \<exists>online. get_online_users_in_room now' room_id st' = Inr online \<and> user_id \<notin> online)"
proof -
  let ?uk = "get_user_presence_key user_id"
  let ?st1 = "redis_delete ?uk st"
  let ?ks = "redis_scan_iter now ''presence:room:*'' ?st1"
  have h1: "room_keys_hold_sets ?st1" using assms(1) by (simp add: redis_delete_def hold_sets_delete)
  have g: "list_all (glob ''presence:room:*'') ?ks"
    by (simp add: redis_scan_iter_def list_all_iff)
  from srem_each_ok[OF h1 g, of now user_id] obtain st' where
    r: "srem_each now user_id ?ks ?st1 = (None, st')"
    and o: "\<forall>k. k \<notin> set ?ks \<longrightarrow> map_of st' k = map_of ?st1 k"
    and n: "\<forall>k \<in> set ?ks. no_member now user_id st' k"
    by blast
  have "?uk \<notin> set ?ks" using not_glob_user_key[of user_id] by (simp add: redis_scan_iter_def)
  then have "map_of st' ?uk = None" using o by (simp add: redis_delete_def delete_conv')
  then have off: "\<not> is_user_online now' user_id st'"
    by (simp add: is_user_online_def redis_exists_def redis_lookup_def)
  have rooms: "\<exists>online. get_online_users_in_room now' room_id st' = Inr online \<and> user_id \<notin> online"
    for room_id
  proof (cases "redis_lookup now' st' (get_room_presence_key room_id)")
    case None
    then show ?thesis by (simp add: get_online_users_in_room_def redis_smembers_def)
  next
    case (Some e)
    let ?rk = "get_room_presence_key room_id"
    have "?rk \<in> set ?ks"
    proof (rule ccontr)
      assume a: "?rk \<notin> set ?ks"
      then have m: "map_of st' ?rk = map_of ?st1 ?rk" using o by blast
      from Some have "map_of st' ?rk = Some e" and "alive now' e"
        by (auto simp: redis_lookup_def split: option.splits if_splits)
      then have "map_of ?st1 ?rk = Some e" and "alive now e"
        using m assms(2) by (auto dest: alive_mono)
      then have "?rk \<in> set ?ks"
        using glob_room_key[of room_id]
        by (auto simp: redis_scan_iter_def redis_lookup_def dest!: map_of_SomeD intro!: image_eqI[where x="(?rk, e)"])
      then show False using a by blast
    qed
    then have "no_member now user_id st' ?rk" using n by blast
    then obtain ms where "e_value e = RSet ms" "user_id \<notin> ms"
      using Some assms(2) unfolding no_member_def by blast
    then show ?thesis using Some
      by (simp add: get_online_users_in_room_def redis_smembers_def)
  qed
  show ?thesis using r off rooms by (simp add: set_user_offline_def Let_def)
qed

subsection \<open>The utilities on the example store\<close>

text \<open>
  Keys are rendered as the f-strings render them.  Taking Alice offline deletes her
  marker, removes her from room 3 and deletes room 4, whose set she was alone in;
  bringing user 9 online in room 5 adds a marker and a room set that expire 60 seconds
  later; the room identifier \<^verbatim>\<open>0\<close> adds the marker only.
\<close>


lemma str_int_examples: "str_int 7 = ''7''" "str_int 42 = ''42''" "str_int (- 5) = ''-5''"
  by (simp_all add: str_int_def str_nat.simps)

lemma set_user_offline_example:
  "set_user_offline 100 7 example_presence
     = (None, [(''presence:room:3'', \<lparr>e_value = RSet {8}, e_expires = Some 60000\<rparr>)])"
  by (simp add: set_user_offline_def example_presence_def redis_delete_def redis_scan_iter_def
      redis_lookup_def alive_def redis_srem_def get_user_presence_key_def str_int_def
      str_nat.simps Let_def)

lemma set_user_online_example:
  "set_user_online 100 9 (Some 5) example_presence
     = (None, example_presence
          @ [(''presence:user:9'', \<lparr>e_value = RString ''online'', e_expires = Some 60100\<rparr>),
             (''presence:room:5'', \<lparr>e_value = RSet {9}, e_expires = Some 60100\<rparr>)])"
  by (simp add: set_user_online_def example_presence_def redis_setex_def redis_sadd_def
      redis_expire_def redis_lookup_def alive_def get_user_presence_key_def
      get_room_presence_key_def str_int_def str_nat.simps Let_def)

lemma set_user_online_room_zero:
  "set_user_online 100 9 (Some 0) []
     = (None, [(''presence:user:9'', \<lparr>e_value = RString ''online'', e_expires = Some 60100\<rparr>)])"
  by (simp add: set_user_online_def redis_setex_def get_user_presence_key_def str_int_def
      str_nat.simps Let_def)

subsection \<open>The store stays well formed\<close>

text \<open>
  The empty store has sets under its room keys, and both utilities keep it so.
\<close>


lemma hold_sets_empty: "room_keys_hold_sets []"
  by (simp add: room_keys_hold_sets_def)

lemma hold_sets_update_other:
  "room_keys_hold_sets st \<Longrightarrow> \<not> glob ''presence:room:*'' k \<Longrightarrow>
   room_keys_hold_sets (AList.update k e st)"
  using set_update_subset[of k e st]
  by (auto simp: room_keys_hold_sets_def list_all_iff split: if_splits)

lemma set_user_online_keeps_hold_sets:
  assumes "room_keys_hold_sets st"
  shows "room_keys_hold_sets (snd (set_user_online now user_id room_id st))"
proof -
  let ?st1 = "redis_setex now (get_user_presence_key user_id) 60 ''online'' st"
  have h1: "room_keys_hold_sets ?st1"
    using assms not_glob_user_key[of user_id] by (simp add: redis_setex_def hold_sets_update_other)
  have sadd: "room_keys_hold_sets st2"
    if "redis_sadd now k user_id ?st1 = Inr st2" for k st2
    using that h1
    by (auto simp: redis_sadd_def holds_set_def hold_sets_update
        split: option.splits rvalue.splits)
  have expire: "room_keys_hold_sets (redis_expire now k 60 st2)"
    if "room_keys_hold_sets st2" "glob ''presence:room:*'' k" for k st2
  proof (cases "redis_lookup now st2 k")
    case None
    then show ?thesis using that by (simp add: redis_expire_def)
  next
    case (Some e)
    from lookup_holds_set[OF that(1) Some that(2)] have "holds_set e"
      by (auto simp: holds_set_def)
    then show ?thesis using Some that(1)
      by (simp add: redis_expire_def hold_sets_update holds_set_def)
  qed
  show ?thesis
    using h1 sadd expire glob_room_key
    by (auto simp: set_user_online_def Let_def split: option.splits sum.splits)
qed

lemma srem_each_keeps_hold_sets:
  "room_keys_hold_sets st \<Longrightarrow> list_all (glob ''presence:room:*'') ks \<Longrightarrow>
   room_keys_hold_sets (snd (srem_each now u ks st))"
proof (induction ks arbitrary: st)
  case Nil
  then show ?case by simp
next
  case (Cons k ks)
  then obtain st1 where "redis_srem now k u st = Inr st1" "room_keys_hold_sets st1"
    using srem_succeeds[of st k now u] by auto
  then show ?case using Cons by simp
qed

lemma set_user_offline_keeps_hold_sets:
  assumes "room_keys_hold_sets st"
  shows "room_keys_hold_sets (snd (set_user_offline now user_id st))"
  using assms
  by (simp add: set_user_offline_def Let_def redis_delete_def hold_sets_delete
      srem_each_keeps_hold_sets redis_scan_iter_def list_all_iff)

text \<open>
  C5.  Room identifiers are \<^verbatim>\<open>BigAutoField\<close> keys, which the database assigns from 1;
  \<^verbatim>\<open>set_user_online\<close> treats the identifier \<^verbatim>\<open>0\<close> like an absent room.  On a store
  whose room keys hold sets, \<^verbatim>\<open>set_user_online(u, r)\<close> returns without an exception,
  and from then until the 60 second time to live runs out \<^verbatim>\<open>is_user_online(u)\<close> is
  true and \<open>u\<close> is among \<^verbatim>\<open>get_online_users_in_room(r)\<close>; \<^verbatim>\<open>set_user_offline(u)\<close>
  returns without an exception, and from then on \<^verbatim>\<open>is_user_online(u)\<close> is false and
  \<open>u\<close> is in the online set of no room.
\<close>

theorem presence_after_set_online_and_set_offline:
  assumes "room_keys_hold_sets st" and "now \<le> now'"
  shows "(room_id \<noteq> 0 \<and> now' < now + 60000 \<longrightarrow>
            (\<exists>st'. set_user_online now user_id (Some room_id) st = (None, st')
               \<and> is_user_online now' user_id st'
               \<and> (\<exists>online. get_online_users_in_room now' room_id st' = Inr online
                     \<and> user_id \<in> online)))
       \<and> (\<exists>st'. set_user_offline now user_id st = (None, st')
               \<and> \<not> is_user_online now' user_id st'
               \<and> (\<forall>room_id'. \<exists>online. get_online_users_in_room now' room_id' st' = Inr online
                     \<and> user_id \<notin> online))"
  using set_online_ok[of st room_id now now' user_id] set_offline_ok[of st now now' user_id] assms
  by blast

theorem presence_after_set_online_and_set_offline_witness:
  "room_keys_hold_sets example_presence \<and> (100::nat) \<le> 100 \<and> (5::int) \<noteq> 0
   \<and> (100::nat) < 100 + 60000
   \<and> (\<exists>st'. set_user_online 100 9 (Some 5) example_presence = (None, st')
          \<and> is_user_online 100 9 st'
          \<and> (\<exists>online. get_online_users_in_room 100 5 st' = Inr online \<and> 9 \<in> online))
   \<and> (\<exists>st'. set_user_offline 100 7 example_presence = (None, st')
          \<and> \<not> is_user_online 100 7 st'
          \<and> (\<forall>room_id'. \<exists>online. get_online_users_in_room 100 room_id' st' = Inr online
                \<and> 7 \<notin> online))"
proof -
  have h: "room_keys_hold_sets example_presence"
    by (simp add: room_keys_hold_sets_def example_presence_def holds_set_def)
  show ?thesis
    using h presence_after_set_online_and_set_offline [OF h, of 100 100 5 9]
      presence_after_set_online_and_set_offline [OF h, of 100 100 5 7]
    by simp
qed

section \<open>Connecting to a room\<close>



lemma find_map_same_id:
  assumes "\<And>row. u_id (f row) = u_id row"
  shows "find (\<lambda>u. u_id u = i) (map f xs) = map_option f (find (\<lambda>u. u_id u = i) xs)"
  using assms by (induction xs) auto

lemma find_SomeD: "find P xs = Some x \<Longrightarrow> P x"
  by (induction xs) (auto split: if_splits)

lemma user_status_changed_after_save:
  assumes "users (w_db w) = map (\<lambda>row. if u_id row = u_id inst
                                     then row\<lparr>u_is_online := u_is_online inst, u_last_seen := ls\<rparr>
                                     else row) us"
  shows "user_status_changed inst created w = w"
proof -
  let ?f = "\<lambda>row. if u_id row = u_id inst
              then row\<lparr>u_is_online := u_is_online inst, u_last_seen := ls\<rparr> else row"
  have "find (\<lambda>u. u_id u = u_id inst) (users (w_db w))
          = map_option ?f (find (\<lambda>u. u_id u = u_id inst) us)"
    unfolding assms by (rule find_map_same_id) simp
  then have "u_is_online old = u_is_online inst"
    if "find (\<lambda>u. u_id u = u_id inst) (users (w_db w)) = Some old" for old
  proof -
    from that \<open>find (\<lambda>u. u_id u = u_id inst) (users (w_db w))
          = map_option ?f (find (\<lambda>u. u_id u = u_id inst) us)\<close>
    obtain row where r: "find (\<lambda>u. u_id u = u_id inst) us = Some row" and o: "old = ?f row"
      by (cases "find (\<lambda>u. u_id u = u_id inst) us") auto
    from find_SomeD[OF r] o show ?thesis by simp
  qed
  then show ?thesis
    by (simp add: user_status_changed_def User_objects_get_def split: option.splits)
qed

lemma User_set_online_world:
  "snd (User_set_online user w) =
     w\<lparr>w_db := (w_db w)\<lparr>users := map (\<lambda>row. if u_id row = u_id user
                                        then row\<lparr>u_is_online := True, u_last_seen := None\<rparr>
                                        else row) (users (w_db w))\<rparr>\<rparr>"
  by (simp add: User_set_online_def Let_def
      user_status_changed_after_save[where us="users (w_db w)" and ls=None])

lemma User_set_online_user:
  "fst (User_set_online user w) = user\<lparr>u_is_online := True, u_last_seen := None\<rparr>"
  by (simp add: User_set_online_def Let_def)

lemma not_member:
  "\<not> active_membership db (u_id user) room_id \<Longrightarrow> \<not> is_room_member db user room_id"
  by (auto simp: is_room_member_def list_ex_iff)

lemma active_membership_users:
  "active_membership (db\<lparr>users := us\<rparr>) user room_id = active_membership db user room_id"
  by (simp add: active_membership_def)

text \<open>
  The middleware and \<^verbatim>\<open>connect\<close>, for a token that validates to an existing user
  who has no active membership in the room of the URL: the middleware authenticates
  the user, \<^verbatim>\<open>connect\<close> closes the connection with code 4003 without accepting it
  or sending anything, and the two together leave the presence store and the channel
  layer exactly as they were.
\<close>

theorem connect_non_member_refused:
  assumes "token_string \<noteq> []" and "user_id \<noteq> 0"
    and "access_token token_string = Some user_id"
    and "User_objects_get user_id (w_db w) = Inr user"
    and "\<not> active_membership (w_db w) user_id room_id"
  shows "(case connection_attempt access_token now (Some token_string) room_id channel_name w of
           (self', w') \<Rightarrow>
             c_close_code self' = Some 4003 \<and> \<not> c_accepted self'
             \<and> c_sent self' = []
             \<and> w_redis w' = w_redis w
             \<and> w_layer w' = w_layer w)"
proof -
  have uid: "u_id user = user_id"
    using assms(4) by (auto simp: User_objects_get_def split: option.splits dest: find_SomeD)
  obtain user' w1 where sw: "User_set_online user w = (user', w1)" by (cases "User_set_online user w")
  have u': "user' = user\<lparr>u_is_online := True, u_last_seen := None\<rparr>"
    using User_set_online_user[of user w] sw by simp
  have w1: "w1 = w\<lparr>w_db := (w_db w)\<lparr>users := map (\<lambda>row. if u_id row = u_id user
                                        then row\<lparr>u_is_online := True, u_last_seen := None\<rparr>
                                        else row) (users (w_db w))\<rparr>\<rparr>"
    using User_set_online_world[of user w] sw by simp
  have nm: "\<not> is_room_member (w_db w1) user' room_id"
    using assms(5) uid by (intro not_member) (simp add: w1 u' active_membership_users)
  have mw: "JWTAuthMiddleware_call access_token (Some token_string) w = (AuthUser user', w1)"
    using assms sw by (simp add: JWTAuthMiddleware_call_def get_user_from_token_def)
  show ?thesis
    using nm by (simp add: connection_attempt_def mw connect_def Let_def close_def new_consumer_def w1)
qed

theorem connect_non_member_refused_example:
  "''token-of-alice'' \<noteq> [] \<and> (7::int) \<noteq> 0
   \<and> example_access_token ''token-of-alice'' = Some 7
   \<and> User_objects_get 7 (w_db example_world) = Inr alice
   \<and> \<not> active_membership (w_db example_world) 7 3
   \<and> (case connection_attempt example_access_token 100 (Some ''token-of-alice'') 3
              ''specific.alice'' example_world of
         (self', w') \<Rightarrow>
           c_close_code self' = Some 4003 \<and> \<not> c_accepted self' \<and> c_sent self' = []
           \<and> w_redis w' = example_presence
           \<and> w_layer w' = w_layer example_world)"
proof -
  have 1: "''token-of-alice'' \<noteq> []" by simp
  have 2: "(7::int) \<noteq> 0" by simp
  have 3: "example_access_token ''token-of-alice'' = Some 7"
    by (simp add: example_access_token_def)
  have 4: "User_objects_get 7 (w_db example_world) = Inr alice"
    by (simp add: User_objects_get_def ex_defs)
  have 5: "\<not> active_membership (w_db example_world) 7 3"
    by (simp add: active_membership_def ex_defs)
  show ?thesis
    using 1 2 3 4 5
      connect_non_member_refused [where access_token = example_access_token
        and token_string = "''token-of-alice''" and user_id = 7 and w = example_world
        and user = alice and room_id = 3 and now = 100 and channel_name = "''specific.alice''"]
    by (simp add: example_world_def)
qed

text \<open>
  What the attempt does write is the durable \<^verbatim>\<open>is_online\<close> column of the user's row,
  set by the middleware before \<^verbatim>\<open>connect\<close> runs; \<^verbatim>\<open>connect\<close> itself, on a user who
  is not a member, writes nothing.
\<close>

lemma connect_non_member_world:
  "\<not> is_room_member (w_db w) user room_id \<Longrightarrow>
   snd (connect now room_id (Some (AuthUser user)) self w) = w"
  by (simp add: connect_def Let_def)

lemma connection_attempt_durable_flag:
  assumes "token_string \<noteq> []" and "user_id \<noteq> 0"
    and "access_token token_string = Some user_id"
    and "User_objects_get user_id (w_db w) = Inr user"
    and "\<not> active_membership (w_db w) user_id room_id"
  shows "users (w_db (snd (connection_attempt access_token now (Some token_string) room_id
            channel_name w)))
         = map (\<lambda>row. if u_id row = user_id
                       then row\<lparr>u_is_online := True, u_last_seen := None\<rparr> else row)
             (users (w_db w))"
proof -
  have uid: "u_id user = user_id"
    using assms(4) by (auto simp: User_objects_get_def split: option.splits dest: find_SomeD)
  obtain user' w1 where sw: "User_set_online user w = (user', w1)" by (cases "User_set_online user w")
  have u': "user' = user\<lparr>u_is_online := True, u_last_seen := None\<rparr>"
    using User_set_online_user[of user w] sw by simp
  have w1: "w1 = w\<lparr>w_db := (w_db w)\<lparr>users := map (\<lambda>row. if u_id row = u_id user
                                        then row\<lparr>u_is_online := True, u_last_seen := None\<rparr>
                                        else row) (users (w_db w))\<rparr>\<rparr>"
    using User_set_online_world[of user w] sw by simp
  have nm: "\<not> is_room_member (w_db w1) user' room_id"
    using assms(5) uid by (intro not_member) (simp add: w1 u' active_membership_users)
  have mw: "JWTAuthMiddleware_call access_token (Some token_string) w = (AuthUser user', w1)"
    using assms sw by (simp add: JWTAuthMiddleware_call_def get_user_from_token_def)
  show ?thesis
    using nm uid by (simp add: connection_attempt_def mw connect_def Let_def w1)
qed

text \<open>
  \<^verbatim>\<open>connect\<close> stores \<^verbatim>\<open>room_group_name\<close> and \<^verbatim>\<open>user\<close> before its checks, so
  the guards of \<^verbatim>\<open>disconnect\<close> hold on a consumer that was refused: run on it,
  \<^verbatim>\<open>disconnect\<close> publishes \<^verbatim>\<open>user_left\<close> to the room's group and calls
  \<^verbatim>\<open>set_user_offline\<close> for the user.
\<close>


lemma disconnect_after_refused_connect:
  assumes "token_string \<noteq> []" and "user_id \<noteq> 0"
    and "access_token token_string = Some user_id"
    and "User_objects_get user_id (w_db w) = Inr user"
    and "\<not> active_membership (w_db w) user_id room_id"
  shows "(case connection_attempt access_token now (Some token_string) room_id channel_name w of
           (self', w') \<Rightarrow>
             (case disconnect later close_code self' w' of
                (self'', w'') \<Rightarrow>
                  published (w_layer w'')
                    = published (w_layer w)
                        @ [(get_room_channel_group room_id,
                            User_left (Some user_id)
                              (get_full_name (user\<lparr>u_is_online := True, u_last_seen := None\<rparr>)))]
                  \<and> w_redis w'' = snd (set_user_offline later user_id (w_redis w))))"
proof -
  have uid: "u_id user = user_id"
    using assms(4) by (auto simp: User_objects_get_def split: option.splits dest: find_SomeD)
  obtain user' w1 where sw: "User_set_online user w = (user', w1)" by (cases "User_set_online user w")
  have u': "user' = user\<lparr>u_is_online := True, u_last_seen := None\<rparr>"
    using User_set_online_user[of user w] sw by simp
  have w1: "w1 = w\<lparr>w_db := (w_db w)\<lparr>users := map (\<lambda>row. if u_id row = u_id user
                                        then row\<lparr>u_is_online := True, u_last_seen := None\<rparr>
                                        else row) (users (w_db w))\<rparr>\<rparr>"
    using User_set_online_world[of user w] sw by simp
  have nm: "\<not> is_room_member (w_db w1) user' room_id"
    using assms(5) uid by (intro not_member) (simp add: w1 u' active_membership_users)
  have mw: "JWTAuthMiddleware_call access_token (Some token_string) w = (AuthUser user', w1)"
    using assms sw by (simp add: JWTAuthMiddleware_call_def get_user_from_token_def)
  have g: "get_room_channel_group room_id \<noteq> []" by (simp add: get_room_channel_group_def)
  show ?thesis
    using nm uid g
    by (simp add: connection_attempt_def mw connect_def Let_def close_def new_consumer_def
        disconnect_def group_send_def group_discard_def w1 u')
qed

text \<open>
  C1.  The claim (a refused attempt publishes no event and leaves the presence state
  unchanged) fails on the code once the refused socket is reported closed.  Alice has
  left room 3 but is online through another connection.  Her attempt on room 3 is
  closed with 4003; the \<^verbatim>\<open>disconnect\<close> that follows publishes \<^verbatim>\<open>user_left\<close> for her
  to the room's group, deletes her liveness marker and removes her from the online set
  of every room.
\<close>

theorem refused_connection_publishes_user_left:
  "(case connection_attempt example_access_token 100 (Some ''token-of-alice'') 3
           ''specific.alice'' example_world of
      (self', w') \<Rightarrow>
        c_close_code self' = Some 4003
        \<and> (case disconnect 100 1006 self' w' of
             (self'', w'') \<Rightarrow>
               published (w_layer w'') = [(''chat_3'', User_left (Some 7) ''Alice Adams'')]
               \<and> w_redis w''
                   = [(''presence:room:3'', \<lparr>e_value = RSet {8}, e_expires = Some 60000\<rparr>)]))
   \<and> \<not> active_membership (w_db example_world) 7 3
   \<and> published (w_layer example_world) = []
   \<and> is_user_online 100 7 (w_redis example_world)
   \<and> get_online_users_in_room 100 3 (w_redis example_world) = Inr {7, 8}"
proof -
  have 1: "''token-of-alice'' \<noteq> []" by simp
  have 2: "(7::int) \<noteq> 0" by simp
  have 3: "example_access_token ''token-of-alice'' = Some 7"
    by (simp add: example_access_token_def)
  have 4: "User_objects_get 7 (w_db example_world) = Inr alice"
    by (simp add: User_objects_get_def ex_defs)
  have 5: "\<not> active_membership (w_db example_world) 7 3"
    by (simp add: active_membership_def ex_defs)
  have name: "get_full_name (alice\<lparr>u_is_online := True, u_last_seen := None\<rparr>) = ''Alice Adams''"
    by (simp add: get_full_name_def alice_def strip_def isspace_def Let_def)
  have group: "get_room_channel_group 3 = ''chat_3''"
    by (simp add: get_room_channel_group_def str_int_def str_nat.simps)
  have off: "set_user_offline 100 7 (w_redis example_world)
     = (None, [(''presence:room:3'', \<lparr>e_value = RSet {8}, e_expires = Some 60000\<rparr>)])"
    using set_user_offline_example by (simp add: example_world_def)
  have before: "is_user_online 100 7 (w_redis example_world)"
    "get_online_users_in_room 100 3 (w_redis example_world) = Inr {7, 8}"
    by (simp_all add: example_world_def example_presence_def is_user_online_def redis_exists_def
        redis_lookup_def alive_def get_online_users_in_room_def redis_smembers_def
        get_user_presence_key_def get_room_presence_key_def str_int_def str_nat.simps)
  have close: "case connection_attempt example_access_token 100 (Some ''token-of-alice'') 3
           ''specific.alice'' example_world of (self', w') \<Rightarrow> c_close_code self' = Some 4003"
    using connect_non_member_refused [where access_token = example_access_token
        and token_string = "''token-of-alice''" and user_id = 7 and w = example_world
        and user = alice and room_id = 3 and now = 100 and channel_name = "''specific.alice''",
        OF 1 2 3 4 5]
    by (auto split: prod.splits)
  have dis: "case connection_attempt example_access_token 100 (Some ''token-of-alice'') 3
           ''specific.alice'' example_world of (self', w') \<Rightarrow>
             (case disconnect 100 1006 self' w' of
                (self'', w'') \<Rightarrow>
                  published (w_layer w'') = [(''chat_3'', User_left (Some 7) ''Alice Adams'')]
                  \<and> w_redis w''
                      = [(''presence:room:3'', \<lparr>e_value = RSet {8}, e_expires = Some 60000\<rparr>)])"
    using disconnect_after_refused_connect [where access_token = example_access_token
        and token_string = "''token-of-alice''" and user_id = 7 and w = example_world
        and user = alice and room_id = 3 and now = 100 and channel_name = "''specific.alice''"
        and later = 100 and close_code = 1006, OF 1 2 3 4 5]
    by (simp add: name group off split: prod.splits) (simp add: example_world_def)
  show ?thesis
    using close dis 5 before by (auto simp: example_world_def split: prod.splits)
qed

section \<open>Inbound values\<close>

text \<open>The integer validation and \<^verbatim>\<open>strip\<close> on sample values.\<close>

lemma numeral_value_examples:
  "numeral_value ''5'' = Some 5" "numeral_value ''-12'' = Some (- 12)"
  "numeral_value ''+7'' = Some 7" "numeral_value ''abc'' = None"
  "numeral_value [] = None" "numeral_value ''-'' = None" "numeral_value ''1.5'' = None"
  by (simp_all add: numeral_value_def)

lemma pydantic_int_examples:
  "pydantic_int (JInt 10) = Inr 10"
  "pydantic_int (JString ''10'') = Inr 10"
  "pydantic_int (JFloat 10) = Inr 10"
  "pydantic_int (JFloat (3 / 2)) = Inl PydanticValidationError"
  "pydantic_int (JBool True) = Inr 1"
  "pydantic_int JNull = Inl PydanticValidationError"
  "optional_int (Some (JString ''5'')) = Inr (Some 5)"
  "optional_int (Some JNull) = Inr None"
  by (simp_all add: pydantic_int_def optional_int_def numeral_value_def)

lemma strip_examples:
  "strip [CHR 0xA0, CHR 0x20] = []" "strip '' a b '' = ''a b''"
  by (simp_all add: strip_def isspace_def)

section \<open>Frames the consumer cannot dispatch\<close>

text \<open>
  C6.  A frame that does not decode, decodes to something other than an object, has no
  \<^verbatim>\<open>type\<close> entry, or has a \<^verbatim>\<open>type\<close> that is none of the five handler tags: the
  consumer is left as it was except for one \<^verbatim>\<open>error\<close> envelope appended to what
  it sent to its own client (so it is not closed), and the world, that is the database,
  the presence store, the groups and the published events, is unchanged.
\<close>

theorem receive_protocol_error_is_local:
  "(json_loads text_data = None \<longrightarrow>
      receive json_loads now text_data self w
        = (self\<lparr>c_sent := c_sent self @ [Error_envelope Invalid_JSON]\<rparr>, w))
   \<and> (json_loads text_data = Some v \<and> (\<forall>data. v \<noteq> JObject data) \<longrightarrow>
      receive json_loads now text_data self w
        = (self\<lparr>c_sent := c_sent self @ [Error_envelope Internal_server_error]\<rparr>, w))
   \<and> (json_loads text_data = Some (JObject data) \<and> map_of data ''type'' = None \<longrightarrow>
      receive json_loads now text_data self w
        = (self\<lparr>c_sent := c_sent self @ [Error_envelope Message_type_is_required]\<rparr>, w))
   \<and> (json_loads text_data = Some (JObject data) \<and> map_of data ''type'' = Some tag
       \<and> tag \<notin> set (map JString [''join'', ''leave'', ''message'', ''attachment'', ''typing'']) \<longrightarrow>
      (\<exists>message. receive json_loads now text_data self w
        = (self\<lparr>c_sent := c_sent self @ [Error_envelope message]\<rparr>, w)))"
proof -
  have a: "receive json_loads now text_data self w
        = (self\<lparr>c_sent := c_sent self @ [Error_envelope Internal_server_error]\<rparr>, w)"
    if "json_loads text_data = Some v" "\<forall>data. v \<noteq> JObject data" for v
    using that by (cases v) (simp_all add: receive_def send_error_def)
  show ?thesis
    using a by (auto simp: receive_def send_error_def Let_def)
qed

theorem receive_protocol_error_is_local_witness:
  \<open>example_loads ''not json'' = None
   \<and> receive example_loads 1000 ''not json'' bob_consumer example_world
       = (bob_consumer\<lparr>c_sent := [Error_envelope Invalid_JSON]\<rparr>, example_world)
   \<and> receive example_loads 1000 ''{"data": {}}'' bob_consumer example_world
       = (bob_consumer\<lparr>c_sent := [Error_envelope Message_type_is_required]\<rparr>, example_world)
   \<and> (\<exists>message. receive example_loads 1000 ''{"type": "shout"}'' bob_consumer example_world
       = (bob_consumer\<lparr>c_sent := [Error_envelope message]\<rparr>, example_world))\<close>
  using receive_protocol_error_is_local
          [of example_loads "''not json''" 1000 bob_consumer example_world]
        receive_protocol_error_is_local
          [where json_loads = example_loads and text_data = \<open>''{"data": {}}''\<close>
             and data = "[(''data'', JObject [])]"
             and now = 1000 and self = bob_consumer and w = example_world]
        receive_protocol_error_is_local
          [where json_loads = example_loads and text_data = \<open>''{"type": "shout"}''\<close>
             and data = "[(''type'', JString ''shout'')]" and tag = "JString ''shout''"
             and now = 1000 and self = bob_consumer and w = example_world]
  by (simp add: example_loads_def bob_consumer_def)

section \<open>Text messages with blank content\<close>

text \<open>
  \<^verbatim>\<open>handle_message\<close> performs no content check: whatever string the envelope
  carries is inserted and published, as long as the room and the sender exist.
\<close>

lemma create_message_never_validates:
  assumes "list_ex (\<lambda>r. r_id r = room_id) (rooms db)"
    and "list_ex (\<lambda>u. u_id u = u_id sender) (users db)"
  shows "\<exists>m. create_message now room_id sender content reply_to db
               = Inr (m, db\<lparr>messages := messages db @ [m], message_seq := message_seq db + 1\<rparr>)
             \<and> m_content m = content"
  using assms by (simp add: create_message_def Message_objects_create_def Let_def)

lemma handle_message_never_validates:
  assumes "MessageMessage data = Inr message"
    and "c_room_id self = Some room_id" and "c_user self = Some (AuthUser sender)"
    and "c_room_group_name self = Some g"
    and "list_ex (\<lambda>r. r_id r = room_id) (rooms (w_db w))"
    and "list_ex (\<lambda>u. u_id u = u_id sender) (users (w_db w))"
  shows "\<exists>m db'. handle_message now data self w
            = (self, w\<lparr>w_db := db', w_layer := group_send g (Chat_message m) (w_layer w)\<rparr>)
          \<and> messages db' = messages (w_db w) @ [m] \<and> m_content m = md_content message"
proof -
  from create_message_never_validates[OF assms(5,6), of now "md_content message" "md_reply_to message"]
  obtain m where c: "create_message now room_id sender (md_content message) (md_reply_to message) (w_db w)
               = Inr (m, (w_db w)\<lparr>messages := messages (w_db w) @ [m],
                                  message_seq := message_seq (w_db w) + 1\<rparr>)"
    and m: "m_content m = md_content message" by blast
  have "handle_message now data self w
          = (self, w\<lparr>w_db := (w_db w)\<lparr>messages := messages (w_db w) @ [m],
                                         message_seq := message_seq (w_db w) + 1\<rparr>,
                     w_layer := group_send g (Chat_message m) (w_layer w)\<rparr>)"
    using assms(1-4) c by (simp add: handle_message_def)
  then show ?thesis using m by fastforce
qed

text \<open>
  C2.  The claim (a \<^verbatim>\<open>message\<close> envelope with blank content is refused, nothing is
  stored, the sender gets a local error) fails on the code.  Bob sends three spaces:
  the message is inserted, published to the room's group, no error envelope is sent to
  him, and the model's own \<^verbatim>\<open>Message.clean\<close>, which nothing on this path calls,
  rejects the stored row.
\<close>

theorem blank_message_persisted_and_broadcast:
  \<open>receive example_loads 1000 ''{"type": "message", "data": {"content": "   "}}''
      bob_consumer example_world
    = (bob_consumer,
       example_world\<lparr>w_db := example_db\<lparr>messages := [hello, reply, blank_message],
                                          message_seq := 3\<rparr>,
                     w_layer := (w_layer example_world)
                                  \<lparr>published := [(''chat_3'', Chat_message blank_message)]\<rparr>\<rparr>)
   \<and> Message_clean blank_message = Inl DjangoValidationError\<close>
  by (simp add: receive_def example_loads_def handle_message_def MessageMessage_def optional_int_def pydantic_int_def
      create_message_def Message_objects_create_def ex_defs blank_message_def group_send_def
      Message_clean_def strip_def isspace_def Let_def)

text \<open>The REST path that creates a message does refuse blank text content.\<close>

lemma MessageCreateSerializer_rejects_blank:
  "strip content = [] \<Longrightarrow> MessageCreateSerializer_validate None (Some content) = Inl ValidationError"
  by (simp add: MessageCreateSerializer_validate_def)

section \<open>Replies to messages that do not exist\<close>

lemma find_None_list_ex: "find P xs = None \<longleftrightarrow> \<not> list_ex P xs"
  by (auto simp: find_None_iff list_ex_iff)

text \<open>
  C7.  When \<^verbatim>\<open>reply_to\<close> is the identifier of no stored message,
  \<^verbatim>\<open>create_message\<close> does exactly what it does without a \<^verbatim>\<open>reply_to\<close>; with
  the room and the sender in the database it succeeds, and the message it inserts has
  the given content and no reply reference.
\<close>


theorem create_message_drops_dangling_reply_to:
  assumes "\<not> list_ex (\<lambda>m. m_id m = reply_to) (messages db)"
  shows "create_message now room_id sender content (Some reply_to) db
           = create_message now room_id sender content None db
       \<and> (list_ex (\<lambda>r. r_id r = room_id) (rooms db)
            \<and> list_ex (\<lambda>u. u_id u = u_id sender) (users db) \<longrightarrow>
          (\<exists>m. create_message now room_id sender content (Some reply_to) db
                  = Inr (m, db\<lparr>messages := messages db @ [m],
                                 message_seq := message_seq db + 1\<rparr>)
               \<and> m_reply_to m = None \<and> m_content m = content
               \<and> m_room m = room_id \<and> m_sender m = u_id sender))"
proof -
  have "find (\<lambda>m. m_id m = reply_to) (messages db) = None"
    using assms by (simp add: find_None_list_ex)
  then show ?thesis
    by (simp add: create_message_def Message_objects_get_def Message_objects_create_def Let_def)
qed

theorem create_message_drops_dangling_reply_to_witness:
  "\<not> list_ex (\<lambda>m. m_id m = 99) (messages example_db)
   \<and> list_ex (\<lambda>r. r_id r = 3) (rooms example_db)
   \<and> list_ex (\<lambda>u. u_id u = u_id bob) (users example_db)
   \<and> create_message 1000 3 bob ''hi'' (Some 99) example_db
       = Inr (\<lparr>m_id = 3, m_created_at = 1000, m_updated_at = 1000, m_room = 3, m_sender = 8,
               m_content = ''hi'', m_message_type = ''text'', m_is_edited = False,
               m_edited_at = None, m_reply_to = None\<rparr>,
              example_db\<lparr>messages := [hello, reply,
                 \<lparr>m_id = 3, m_created_at = 1000, m_updated_at = 1000, m_room = 3, m_sender = 8,
                  m_content = ''hi'', m_message_type = ''text'', m_is_edited = False,
                  m_edited_at = None, m_reply_to = None\<rparr>],
                message_seq := 3\<rparr>)"
  using create_message_drops_dangling_reply_to [of 99 example_db 1000 3 bob "''hi''"]
  by (simp add: ex_defs create_message_def Message_objects_get_def Message_objects_create_def Let_def)

lemma create_message_keeps_existing_reply_to:
  "create_message 1000 3 bob ''hi'' (Some 1) example_db
     = Inr (\<lparr>m_id = 3, m_created_at = 1000, m_updated_at = 1000, m_room = 3, m_sender = 8,
             m_content = ''hi'', m_message_type = ''text'', m_is_edited = False,
             m_edited_at = None, m_reply_to = Some 1\<rparr>,
            example_db\<lparr>messages := [hello, reply,
               \<lparr>m_id = 3, m_created_at = 1000, m_updated_at = 1000, m_room = 3, m_sender = 8,
                m_content = ''hi'', m_message_type = ''text'', m_is_edited = False,
                m_edited_at = None, m_reply_to = Some 1\<rparr>],
              message_seq := 3\<rparr>)"
  by (simp add: ex_defs create_message_def Message_objects_get_def Message_objects_create_def Let_def)

section \<open>Attachment envelopes\<close>

text \<open>
  \<^verbatim>\<open>handle_attachment\<close> passes the Pydantic model \<^verbatim>\<open>message.data\<close> to
  \<^verbatim>\<open>create_attachment_message\<close>, which subscripts it: after the message row is
  inserted the call raises \<^verbatim>\<open>TypeError\<close>, before \<^verbatim>\<open>Attachment.objects.create\<close>.
\<close>

lemma create_attachment_message_Model:
  "create_attachment_message now room_id sender (Model d) db
     = (case Message_objects_create now room_id (u_id sender) [] ''attachment'' None db of
          Inl e \<Rightarrow> (Inl e, db)
        | Inr (message, db1) \<Rightarrow> (Inl TypeError, db1))"
  by (simp add: create_attachment_message_def getitem_def split: sum.splits)

text \<open>
  C9.  The claim (an \<^verbatim>\<open>attachment\<close> envelope always stores an attachment row with
  MIME type \<^verbatim>\<open>application/octet-stream\<close> and no file locator) fails on the code.
  Bob sends an attachment envelope that names message 1: a new message of type
  \<^verbatim>\<open>attachment\<close> is inserted (the \<^verbatim>\<open>message_id\<close> is ignored), but no attachment
  row is stored, nothing is published, and Bob gets the error envelope.
\<close>

theorem attachment_envelope_stores_no_attachment:
  \<open>receive example_loads 1000
      ''{"type": "attachment", "data": {"filename": "a.png", "file_url": "/media/a.png", "file_type": "image", "file_size": 10, "message_id": 1}}''
      bob_consumer example_world
    = (bob_consumer\<lparr>c_sent := [Error_envelope Failed_to_send_attachment]\<rparr>,
       example_world\<lparr>w_db := example_db\<lparr>messages := [hello, reply, attachment_message],
                                          message_seq := 3\<rparr>\<rparr>)
   \<and> attachments (example_db\<lparr>messages := [hello, reply, attachment_message],
                               message_seq := 3\<rparr>) = []\<close>
  by (simp add: receive_def example_loads_def handle_attachment_def AttachmentMessage_def
      optional_int_def pydantic_int_def create_attachment_message_def getitem_def Message_objects_create_def
      ex_defs attachment_message_def send_error_def Let_def)

text \<open>
  Called with a dictionary, the function does what the claim describes: the row has the
  constant MIME type and the empty locator.
\<close>

lemma create_attachment_message_Dict:
  "create_attachment_message 1000 3 bob
      (Dict \<lparr>ad_message_id = Some 1, ad_filename = ''a.png'', ad_file_url = ''/media/a.png'',
             ad_file_type = ''image'', ad_file_size = 10\<rparr>) example_db
     = (Inr attachment_message,
        example_db\<lparr>messages := [hello, reply, attachment_message], message_seq := 3,
          attachments := [\<lparr>a_id = 1, a_created_at = 1000, a_updated_at = 1000, a_message = 3,
             a_file = [], a_filename = ''a.png'', a_file_type = ''image'', a_file_size = 10,
             a_mime_type = ''application/octet-stream'', a_thumbnail = None\<rparr>],
          attachment_seq := 1\<rparr>)"
  by (simp add: create_attachment_message_def getitem_def Message_objects_create_def
      Attachment_objects_create_def ex_defs attachment_message_def Let_def)

text \<open>A negative size is refused by the column's check.\<close>

lemma Attachment_objects_create_negative_size:
  "Attachment_objects_create now message filename file_type (- 1) mime_type db = Inl IntegrityError"
  by (simp add: Attachment_objects_create_def)

section \<open>The order of room history\<close>

lemma sorted_wrt_page:
  "sorted_wrt R xs \<Longrightarrow> paginate_queryset page_size page xs = Inr ys \<Longrightarrow> sorted_wrt R ys"
  by (auto simp: paginate_queryset_def Let_def sorted_wrt_take sorted_wrt_drop split: if_splits)

lemma set_page:
  "paginate_queryset page_size page xs = Inr ys \<Longrightarrow> set ys \<subseteq> set xs"
  by (auto simp: paginate_queryset_def Let_def split: if_splits dest!: in_set_takeD in_set_dropD)

lemma order_by_asc: "sorted_wrt (\<lambda>a b. column_value c a \<le> column_value c b) (order_by (Asc c) ms)"
  using sorted_sort_key[of "column_value c" ms] by (simp add: sorted_map)

lemma order_by_desc: "sorted_wrt (\<lambda>a b. column_value c a \<ge> column_value c b) (order_by (Desc c) ms)"
  using sorted_sort_key[of "\<lambda>m. - column_value c m" ms] by (simp add: sorted_map)

lemma set_order_by: "set (order_by ord ms) = set ms"
  by (cases ord) simp_all

lemma find_SomeD2: "find P xs = Some x \<Longrightarrow> P x \<and> x \<in> set xs"
  by (induction xs) (auto split: if_splits)

text \<open>
  C3, as claimed, fails: with no \<^verbatim>\<open>ordering\<close> parameter the endpoint lists the newer
  message first, which is not the ascending order (creation timestamp, then
  identifier) of the claim.
\<close>

theorem room_history_default_order_counterexample:
  "ChatRoomViewSet_messages (\<lambda>text m. True) 8 3 None None None None example_db
     = Inr [reply, hello]
   \<and> \<not> sorted_wrt (\<lambda>a b. m_created_at a < m_created_at b
                          \<or> (m_created_at a = m_created_at b \<and> m_id a \<le> m_id b))
         [reply, hello]"
  by (simp add: ChatRoomViewSet_messages_def ChatRoomViewSet_get_object_def has_membership_def
      paginate_queryset_def ex_defs Let_def)

text \<open>
  C3, amended.  Whatever the insertion order of the stored messages, a page of
  \<^verbatim>\<open>ChatRoomViewSet.messages\<close> holds messages of the requested room only, in
  non-increasing order of creation timestamp when the request names no ordering (the
  default is \<^verbatim>\<open>-created_at\<close>) or names \<^verbatim>\<open>-created_at\<close>, and in non-decreasing
  order when it names \<^verbatim>\<open>created_at\<close>.
\<close>

theorem room_history_order:
  assumes "ChatRoomViewSet_messages icontains user pk search ordering_param page_size page db
             = Inr history"
  shows "(ordering_param = None \<or> ordering_param = Some (Desc Created_at) \<longrightarrow>
            sorted_wrt (\<lambda>a b. m_created_at a \<ge> m_created_at b) history)
       \<and> (ordering_param = Some (Asc Created_at) \<longrightarrow>
            sorted_wrt (\<lambda>a b. m_created_at a \<le> m_created_at b) history)
       \<and> set history \<subseteq> {m \<in> set (messages db). m_room m = pk}"
proof -
  from assms obtain room where
    room: "ChatRoomViewSet_get_object user pk db = Inr room"
    by (auto simp: ChatRoomViewSet_messages_def split: sum.splits)
  then have rid: "r_id room = pk"
    by (auto simp: ChatRoomViewSet_get_object_def split: option.splits dest: find_SomeD2)
  define room_messages where "room_messages = filter (\<lambda>m. m_room m = r_id room) (messages db)"
  define found where "found = (case search of None \<Rightarrow> room_messages
     | Some text \<Rightarrow> if text = [] then room_messages else filter (icontains text) room_messages)"
  define ord where "ord = (case ordering_param of None \<Rightarrow> Desc Created_at | Some ord \<Rightarrow> ord)"
  have page: "paginate_queryset page_size page (order_by ord found) = Inr history"
    using assms room unfolding found_def room_messages_def ord_def
    by (simp add: ChatRoomViewSet_messages_def Let_def split: if_splits)
  have sub: "set found \<subseteq> {m \<in> set (messages db). m_room m = pk}"
    by (auto simp: found_def room_messages_def rid split: option.splits if_splits)
  have d: "sorted_wrt (\<lambda>a b. m_created_at a \<ge> m_created_at b) history"
    if "ordering_param = None \<or> ordering_param = Some (Desc Created_at)"
  proof -
    have "ord = Desc Created_at" using that by (auto simp: ord_def)
    then show ?thesis using sorted_wrt_page[OF order_by_desc[of Created_at found] ] page by simp
  qed
  have a: "sorted_wrt (\<lambda>a b. m_created_at a \<le> m_created_at b) history"
    if "ordering_param = Some (Asc Created_at)"
  proof -
    have "ord = Asc Created_at" using that by (auto simp: ord_def)
    then show ?thesis using sorted_wrt_page[OF order_by_asc[of Created_at found] ] page by simp
  qed
  have s: "set history \<subseteq> {m \<in> set (messages db). m_room m = pk}"
    using set_page[OF page] sub by (simp add: set_order_by)
  show ?thesis using d a s by blast
qed

theorem room_history_order_witness:
  "ChatRoomViewSet_messages (\<lambda>text m. True) 8 3 None None None None example_db
     = Inr [reply, hello]
   \<and> sorted_wrt (\<lambda>a b. m_created_at a \<ge> m_created_at b) [reply, hello]
   \<and> ChatRoomViewSet_messages (\<lambda>text m. True) 8 3 None (Some (Asc Created_at)) None None example_db
     = Inr [hello, reply]
   \<and> sorted_wrt (\<lambda>a b. m_created_at a \<le> m_created_at b) [hello, reply]"
proof -
  have 1: "ChatRoomViewSet_messages (\<lambda>text m. True) 8 3 None None None None example_db
     = Inr [reply, hello]"
    by (simp add: ChatRoomViewSet_messages_def ChatRoomViewSet_get_object_def has_membership_def
      paginate_queryset_def ex_defs Let_def)
  have 2: "ChatRoomViewSet_messages (\<lambda>text m. True) 8 3 None (Some (Asc Created_at)) None None example_db
     = Inr [hello, reply]"
    by (simp add: ChatRoomViewSet_messages_def ChatRoomViewSet_get_object_def has_membership_def
      paginate_queryset_def ex_defs Let_def)
  show ?thesis
    using 1 2 room_history_order [OF 1] room_history_order [OF 2] by simp
qed

section \<open>Editing a message\<close>

lemma get_object_Inl: "MessageViewSet_get_object user pk db = Inl e \<Longrightarrow> e = NotFound"
  by (auto simp: MessageViewSet_get_object_def split: option.splits)

lemma get_object_Inr:
  "MessageViewSet_get_object user pk db = Inr m \<Longrightarrow>
     m_id m = pk \<and> m \<in> set (messages db) \<and> MessageViewSet_get_queryset user db m"
  by (auto simp: MessageViewSet_get_object_def split: option.splits dest: find_SomeD2)

text \<open>
  C4, as claimed, fails: room 3 has been deactivated; Bob, who sent message 2 and is
  still an active member, edits it one minute after he sent it.  The message is outside
  his queryset and the answer is 404, neither a success nor an authorization failure.
\<close>

theorem edit_by_sender_in_window_counterexample:
  "Message_objects_get 2 archived_db = Inr reply
   \<and> m_sender reply = 8
   \<and> active_membership archived_db 8 (m_room reply)
   \<and> 260 - m_created_at reply \<le> timedelta_minutes 15
   \<and> edit Some 260 261 8 2 edit_request archived_db = (Inl NotFound, archived_db)"
  by (simp add: edit_def MessageViewSet_get_object_def MessageViewSet_get_queryset_def
      active_membership_def Message_objects_get_def timedelta_minutes_def archived_db_def ex_defs)

text \<open>
  C4, amended.  \<^verbatim>\<open>edit\<close> answers 404 and writes nothing when the message is not in
  the editor's queryset (its room is inactive, or the editor has no active membership
  in it, or there is no such message).  For a message in the queryset it answers
  \<^verbatim>\<open>PermissionDenied\<close> and writes nothing unless the editor is the sender and at
  most 15 minutes have passed since creation; then a body the serializer rejects is a
  validation error that writes nothing, and a body it accepts succeeds: the stored
  row is replaced by the edited message, with the edited flag set, the edited
  timestamp set to the time of the save, and identifier, sender and creation
  timestamp unchanged.
\<close>

theorem edit_message_rules:
  "(MessageViewSet_get_object user pk db = Inl e \<longrightarrow>
       e = NotFound \<and> edit is_valid now saved_at user pk data db = (Inl NotFound, db))
   \<and> (MessageViewSet_get_object user pk db = Inr m
        \<and> \<not> (m_sender m = user \<and> now - m_created_at m \<le> timedelta_minutes 15) \<longrightarrow>
       edit is_valid now saved_at user pk data db = (Inl PermissionDenied, db))
   \<and> (MessageViewSet_get_object user pk db = Inr m
        \<and> m_sender m = user \<and> now - m_created_at m \<le> timedelta_minutes 15
        \<and> is_valid data = None \<longrightarrow>
       edit is_valid now saved_at user pk data db = (Inl ValidationError, db))
   \<and> (MessageViewSet_get_object user pk db = Inr m
        \<and> m_sender m = user \<and> now - m_created_at m \<le> timedelta_minutes 15
        \<and> is_valid data = Some vd \<longrightarrow>
       (\<exists>m'. edit is_valid now saved_at user pk data db
                = (Inr m', db\<lparr>messages := map (\<lambda>row. if m_id row = pk then m' else row)
                                              (messages db)\<rparr>)
           \<and> m_is_edited m' \<and> m_edited_at m' = Some saved_at
           \<and> m_id m' = pk \<and> m_sender m' = user \<and> m_created_at m' = m_created_at m))"
proof -
  have 1: "e = NotFound \<and> edit is_valid now saved_at user pk data db = (Inl NotFound, db)"
    if "MessageViewSet_get_object user pk db = Inl e"
    using that get_object_Inl[OF that] by (simp add: edit_def)
  have 2: "edit is_valid now saved_at user pk data db = (Inl PermissionDenied, db)"
    if "MessageViewSet_get_object user pk db = Inr m"
       "\<not> (m_sender m = user \<and> now - m_created_at m \<le> timedelta_minutes 15)"
    using that by (auto simp: edit_def)
  have 3: "edit is_valid now saved_at user pk data db = (Inl ValidationError, db)"
    if "MessageViewSet_get_object user pk db = Inr m" "m_sender m = user"
       "now - m_created_at m \<le> timedelta_minutes 15" "is_valid data = None"
    using that by (simp add: edit_def)
  have 4: "\<exists>m'. edit is_valid now saved_at user pk data db
                = (Inr m', db\<lparr>messages := map (\<lambda>row. if m_id row = pk then m' else row)
                                              (messages db)\<rparr>)
           \<and> m_is_edited m' \<and> m_edited_at m' = Some saved_at
           \<and> m_id m' = pk \<and> m_sender m' = user \<and> m_created_at m' = m_created_at m"
    if "MessageViewSet_get_object user pk db = Inr m" "m_sender m = user"
       "now - m_created_at m \<le> timedelta_minutes 15" "is_valid data = Some vd"
    using that get_object_Inr[OF that(1)]
    by (simp add: edit_def Let_def serializer_update_def)
  show ?thesis
  proof (intro conjI impI; (elim conjE)?)
    assume "MessageViewSet_get_object user pk db = Inl e"
    from 1[OF this] show "e = NotFound"
      and "edit is_valid now saved_at user pk data db = (Inl NotFound, db)" by simp_all
  next
    assume "MessageViewSet_get_object user pk db = Inr m"
      "\<not> (m_sender m = user \<and> now - m_created_at m \<le> timedelta_minutes 15)"
    then show "edit is_valid now saved_at user pk data db = (Inl PermissionDenied, db)" by (rule 2)
  next
    assume "MessageViewSet_get_object user pk db = Inr m" "m_sender m = user"
      "now - m_created_at m \<le> timedelta_minutes 15" "is_valid data = None"
    then show "edit is_valid now saved_at user pk data db = (Inl ValidationError, db)" by (rule 3)
  next
    assume "MessageViewSet_get_object user pk db = Inr m" "m_sender m = user"
      "now - m_created_at m \<le> timedelta_minutes 15" "is_valid data = Some vd"
    then show "\<exists>m'. edit is_valid now saved_at user pk data db
                = (Inr m', db\<lparr>messages := map (\<lambda>row. if m_id row = pk then m' else row)
                                              (messages db)\<rparr>)
           \<and> m_is_edited m' \<and> m_edited_at m' = Some saved_at
           \<and> m_id m' = pk \<and> m_sender m' = user \<and> m_created_at m' = m_created_at m"
      by (rule 4)
  qed
qed

theorem edit_message_rules_witness:
  "MessageViewSet_get_object 8 2 example_db = Inr reply
   \<and> m_sender reply = 8 \<and> 260 - m_created_at reply \<le> timedelta_minutes 15
   \<and> edit Some 260 261 8 2 edit_request example_db
       = (Inr (reply\<lparr>m_content := ''edited'', m_is_edited := True, m_edited_at := Some 261,
                     m_updated_at := 261\<rparr>),
          example_db\<lparr>messages := [hello,
             reply\<lparr>m_content := ''edited'', m_is_edited := True, m_edited_at := Some 261,
                   m_updated_at := 261\<rparr>]\<rparr>)
   \<and> edit Some 900000201 900000202 8 2 edit_request example_db
       = (Inl PermissionDenied, example_db)
   \<and> edit Some 260 261 8 1 edit_request example_db = (Inl PermissionDenied, example_db)
   \<and> MessageViewSet_get_object 7 1 example_db = Inl NotFound"
proof -
  have g: "MessageViewSet_get_object 8 2 example_db = Inr reply"
    by (simp add: MessageViewSet_get_object_def MessageViewSet_get_queryset_def
        active_membership_def ex_defs)
  have g1: "MessageViewSet_get_object 8 1 example_db = Inr hello"
    by (simp add: MessageViewSet_get_object_def MessageViewSet_get_queryset_def
        active_membership_def ex_defs)
  have g7: "MessageViewSet_get_object 7 1 example_db = Inl NotFound"
    by (simp add: MessageViewSet_get_object_def MessageViewSet_get_queryset_def
        active_membership_def ex_defs)
  show ?thesis
    using g g1 g7
      edit_message_rules [where is_valid = Some and user = 8 and pk = 2 and db = example_db
        and m = reply and now = 260 and saved_at = 261 and data = edit_request
        and vd = edit_request]
      edit_message_rules [where is_valid = Some and user = 8 and pk = 2 and db = example_db
        and m = reply and now = 900000201 and saved_at = 900000202 and data = edit_request]
      edit_message_rules [where is_valid = Some and user = 8 and pk = 1 and db = example_db
        and m = hello and now = 260 and saved_at = 261 and data = edit_request]
    by (simp add: timedelta_minutes_def ex_defs edit_request_def edit_def serializer_update_def Let_def)
qed

end
